theory Spec2Isabelle
  imports Complex_Main "HOL-Library.Monad_Syntax"
begin

unbundle bit_operations_syntax

section \<open>Data model\<close>

text \<open>
  The script \<^verbatim>\<open>demo_dn_modis_lst.js\<close> describes computations on images of a remote
  platform. An image is a list of named bands together with its metadata; a band holds,
  for every pixel, either a value or nothing (the pixel is masked). A band is stored
  either with an integer pixel type (the raw digital numbers and the packed QA flags) or
  with a floating pixel type, read here as exact reals.
\<close>

datatype 'p raster = IntBand "'p \<Rightarrow> int option" | RealBand "'p \<Rightarrow> real option"

record 'p image =
  bands :: "(string \<times> 'p raster) list"
  properties :: "string \<rightharpoonup> int"

text \<open>The value of a band at a pixel, read as a real number; \<open>None\<close> on a masked pixel.\<close>

fun pixel :: "'p raster \<Rightarrow> 'p \<Rightarrow> real option" where
  "pixel (IntBand f) p = map_option of_int (f p)"
| "pixel (RealBand f) p = f p"

definition band_names :: "'p image \<Rightarrow> string list" where
  "band_names img = map fst (bands img)"

definition band :: "'p image \<Rightarrow> string \<Rightarrow> 'p raster option" where
  "band img name = map_of (bands img) name"

text \<open>
  The helper \<^verbatim>\<open>bitwiseExtract\<close> accepts either kind of platform object (its comment:
  "The input parameter can be a ee.Number() or ee.Image()").
\<close>

datatype 'p ee_object = Number int | Image "'p image"

section \<open>Operations of the platform\<close>

text \<open>
  An operation returns \<open>None\<close> where the platform rejects the request or where the model
  does not say what the platform does.
\<close>

text \<open>
  Modelled from the spec: the integer operations of the remote platform
  (\<^verbatim>\<open>ee.Number.leftShift\<close>, \<^verbatim>\<open>rightShift\<close>, \<^verbatim>\<open>bitwiseAnd\<close>) are not part of the
  repository. The spec reads them as \<^verbatim>\<open><<\<close>, \<^verbatim>\<open>>>\<close> and \<^verbatim>\<open>&\<close> on integers. Neither the
  spec nor the script says what a shift by a negative count yields, so the model leaves
  that case undefined (\<open>None\<close>).
\<close>

definition Number_leftShift :: "int \<Rightarrow> int \<Rightarrow> int option" where
  "Number_leftShift v n = (if n < 0 then None else Some (push_bit (nat n) v))"

definition Number_rightShift :: "int \<Rightarrow> int \<Rightarrow> int option" where
  "Number_rightShift v n = (if n < 0 then None else Some (drop_bit (nat n) v))"

definition Number_bitwiseAnd :: "int \<Rightarrow> int \<Rightarrow> int" where
  "Number_bitwiseAnd v m = v AND m"

text \<open>
  Modelled from the spec: the image operations of the remote platform are not part of
  the repository. A bitwise operation between an image and a constant applies the
  integer operation at every unmasked pixel of every band; it is defined on bands of
  integer pixel type only.
\<close>

fun raster_int_op :: "(int \<Rightarrow> int) \<Rightarrow> 'p raster \<Rightarrow> 'p raster option" where
  "raster_int_op f (IntBand g) = Some (IntBand (\<lambda>p. map_option f (g p)))"
| "raster_int_op f (RealBand g) = None"

definition Image_int_op :: "(int \<Rightarrow> int) \<Rightarrow> 'p image \<Rightarrow> 'p image option" where
  "Image_int_op f img =
     map_option (\<lambda>bs. \<lparr>bands = zip (band_names img) bs, properties = Map.empty\<rparr>)
       (those (map (\<lambda>(n, r). raster_int_op f r) (bands img)))"

definition Image_rightShift :: "'p image \<Rightarrow> int \<Rightarrow> 'p image option" where
  "Image_rightShift img n =
     (if n < 0 then None else Image_int_op (drop_bit (nat n)) img)"

definition Image_bitwiseAnd :: "'p image \<Rightarrow> int \<Rightarrow> 'p image option" where
  "Image_bitwiseAnd img m = Image_int_op (\<lambda>v. v AND m) img"

text \<open>
  Modelled from the spec: \<^verbatim>\<open>Image.select\<close> of the remote platform, not part of the
  repository. It keeps the named band and the metadata of the image; the platform
  rejects the request when the image has no band of that name.
\<close>

definition Image_select :: "'p image \<Rightarrow> string \<Rightarrow> 'p image option" where
  "Image_select img name = map_option (\<lambda>r. img\<lparr>bands := [(name, r)]\<rparr>) (band img name)"

text \<open>
  Modelled from the spec: band arithmetic of the remote platform (\<^verbatim>\<open>Image.multiply\<close>,
  \<^verbatim>\<open>Image.add\<close> with a constant), not part of the repository. The operation is applied
  at every unmasked pixel of every band; masked pixels stay masked. The constants of the
  script are floating-point numbers, so the result has a floating pixel type. The
  script never reads the metadata of an image computed by arithmetic, a comparison or a
  bitwise operation; the model leaves it empty.
\<close>

definition Image_real_op :: "(real \<Rightarrow> real) \<Rightarrow> 'p image \<Rightarrow> 'p image" where
  "Image_real_op f img =
     \<lparr>bands = map (\<lambda>(n, r). (n, RealBand (\<lambda>p. map_option f (pixel r p)))) (bands img),
      properties = Map.empty\<rparr>"

definition Image_multiply :: "'p image \<Rightarrow> real \<Rightarrow> 'p image" where
  "Image_multiply img c = Image_real_op (\<lambda>x. x * c) img"

definition Image_add :: "'p image \<Rightarrow> real \<Rightarrow> 'p image" where
  "Image_add img c = Image_real_op (\<lambda>x. x + c) img"

text \<open>
  Modelled from the spec: \<^verbatim>\<open>Image.addBands(srcImg, names, overwrite)\<close> of the remote
  platform, not part of the repository; the script always passes no list of names, so
  all bands of the source are added. The result has the metadata of the receiver. With
  \<open>overwrite\<close>, a band of the source replaces the band of the same name and the other
  bands of the source are appended. Without it the bands are appended; when a name is
  already taken the platform renames the new band, a case the script does not rely on
  and the model leaves undefined (\<open>None\<close>).
\<close>

definition Image_addBands :: "'p image \<Rightarrow> 'p image \<Rightarrow> bool \<Rightarrow> 'p image option" where
  "Image_addBands dst src overwrite =
     (if overwrite then
        Some (dst\<lparr>bands :=
                map (\<lambda>(n, r). (n, case band src n of Some r' \<Rightarrow> r' | None \<Rightarrow> r)) (bands dst)
                @ filter (\<lambda>(n, r). n \<notin> set (band_names dst)) (bands src)\<rparr>)
      else if list_all (\<lambda>n. n \<notin> set (band_names dst)) (band_names src) then
        Some (dst\<lparr>bands := bands dst @ bands src\<rparr>)
      else None)"

text \<open>
  Modelled from the spec: the comparisons of the remote platform (\<^verbatim>\<open>Image.lte\<close>,
  \<^verbatim>\<open>Image.eq\<close> with a constant) and \<^verbatim>\<open>Image.and\<close>, not part of the repository. A
  comparison yields 1 where it holds and 0 where it does not, at every unmasked pixel;
  \<^verbatim>\<open>and\<close> yields 1 where both values are non-zero and is masked where either input
  is. The script combines images of one band only; the model leaves the other cases
  undefined.
\<close>

definition Image_compare :: "(real \<Rightarrow> bool) \<Rightarrow> 'p image \<Rightarrow> 'p image" where
  "Image_compare P img =
     \<lparr>bands = map (\<lambda>(n, r). (n, IntBand (\<lambda>p. map_option (\<lambda>x. if P x then 1 else 0) (pixel r p))))
                (bands img),
      properties = Map.empty\<rparr>"

definition Image_lte :: "'p image \<Rightarrow> real \<Rightarrow> 'p image" where
  "Image_lte img c = Image_compare (\<lambda>x. x \<le> c) img"

definition Image_eq :: "'p image \<Rightarrow> real \<Rightarrow> 'p image" where
  "Image_eq img c = Image_compare (\<lambda>x. x = c) img"

definition raster_and :: "'p raster \<Rightarrow> 'p raster \<Rightarrow> 'p raster" where
  "raster_and r s =
     IntBand (\<lambda>p. case pixel r p of
                     None \<Rightarrow> None
                   | Some x \<Rightarrow> (case pixel s p of
                                 None \<Rightarrow> None
                               | Some y \<Rightarrow> Some (if x \<noteq> 0 \<and> y \<noteq> 0 then 1 else 0)))"

definition Image_and :: "'p image \<Rightarrow> 'p image \<Rightarrow> 'p image option" where
  "Image_and a b =
     (case bands a of
        [(n, r)] \<Rightarrow> (case bands b of
                      [(m, s)] \<Rightarrow> Some \<lparr>bands = [(n, raster_and r s)], properties = Map.empty\<rparr>
                    | _ \<Rightarrow> None)
      | _ \<Rightarrow> None)"

text \<open>
  Modelled from the spec: \<^verbatim>\<open>Image.rename\<close> with one name, not part of the repository;
  the platform rejects it unless the image has exactly one band.
\<close>

definition Image_rename :: "'p image \<Rightarrow> string \<Rightarrow> 'p image option" where
  "Image_rename img name =
     (case bands img of [(n, r)] \<Rightarrow> Some (img\<lparr>bands := [(name, r)]\<rparr>) | _ \<Rightarrow> None)"

text \<open>
  Modelled from the spec: \<^verbatim>\<open>Image.updateMask\<close> with a mask of one band, not part of
  the repository. A pixel of any band stays unmasked only where it was unmasked and the
  mask is unmasked and non-zero; the metadata of the image is kept.
\<close>

definition mask_keeps :: "'p raster \<Rightarrow> 'p \<Rightarrow> bool" where
  "mask_keeps m p = (case pixel m p of None \<Rightarrow> False | Some x \<Rightarrow> x \<noteq> 0)"

fun raster_updateMask :: "'p raster \<Rightarrow> 'p raster \<Rightarrow> 'p raster" where
  "raster_updateMask (IntBand f) m = IntBand (\<lambda>p. if mask_keeps m p then f p else None)"
| "raster_updateMask (RealBand f) m = RealBand (\<lambda>p. if mask_keeps m p then f p else None)"

definition Image_updateMask :: "'p image \<Rightarrow> 'p image \<Rightarrow> 'p image option" where
  "Image_updateMask img maskImg =
     (case bands maskImg of
        [(n, m)] \<Rightarrow> Some (img\<lparr>bands := map (\<lambda>(b, r). (b, raster_updateMask r m)) (bands img)\<rparr>)
      | _ \<Rightarrow> None)"

text \<open>The two methods the helper calls on its input, whichever kind of object it is.\<close>

fun rightShift :: "'p ee_object \<Rightarrow> int \<Rightarrow> 'p ee_object option" where
  "rightShift (Number v) n = map_option Number (Number_rightShift v n)"
| "rightShift (Image img) n = map_option Image (Image_rightShift img n)"

fun bitwiseAnd :: "'p ee_object \<Rightarrow> int \<Rightarrow> 'p ee_object option" where
  "bitwiseAnd (Number v) m = Some (Number (Number_bitwiseAnd v m))"
| "bitwiseAnd (Image img) m = map_option Image (Image_bitwiseAnd img m)"

section \<open>The script\<close>

subsection \<open>Extracting a bit field\<close>

text \<open>
  \<^verbatim>\<open>
  var bitwiseExtract = function (input, fromBit, toBit) {
      var maskSize = ee.Number(1).add(toBit).subtract(fromBit)
      var mask = ee.Number(1).leftShift(maskSize).subtract(1)
      return input.rightShift(fromBit).bitwiseAnd(mask)
  }
  \<close>
\<close>

definition bitwiseExtract :: "'p ee_object \<Rightarrow> int \<Rightarrow> int \<Rightarrow> 'p ee_object option" where
  "bitwiseExtract input fromBit toBit =
     do {
       let maskSize = 1 + toBit - fromBit;
       bitMask \<leftarrow> map_option (\<lambda>m. m - 1) (Number_leftShift 1 maskSize);
       shifted \<leftarrow> rightShift input fromBit;
       bitwiseAnd shifted bitMask
     }"

text \<open>Applied to an image, the helper yields an image.\<close>

fun the_Image :: "'p ee_object \<Rightarrow> 'p image option" where
  "the_Image (Image img) = Some img"
| "the_Image (Number v) = None"

subsection \<open>The per-image transforms\<close>

text \<open>
  \<^verbatim>\<open>
  var scaleModisLst = function (image) {
      var thermalBands = image.select('LST_Day_1km').multiply(0.02).add(-273.15);
      return image.addBands(thermalBands, null, true)
  }
  \<close>
\<close>

definition scaleModisLst :: "'p image \<Rightarrow> 'p image option" where
  "scaleModisLst img =
     do {
       lst \<leftarrow> Image_select img ''LST_Day_1km'';
       let thermalBands = Image_add (Image_multiply lst 0.02) (- 273.15);
       Image_addBands img thermalBands True
     }"

text \<open>
  \<^verbatim>\<open>
  var maskModisLst = function (image) {
      var qcDay = image.select('QC_Day')
      var qaMask = bitwiseExtract(qcDay, 0, 1).lte(1);
      var dataQualityMask = bitwiseExtract(qcDay, 2, 3).eq(0)
      var lstErrorMask = bitwiseExtract(qcDay, 6, 7).lte(1)
      qaMask = qaMask.and(dataQualityMask).and(lstErrorMask).rename('qaMask')
      return image.addBands(qaMask).updateMask(qaMask);
  };
  \<close>
\<close>

definition maskModisLst :: "'p image \<Rightarrow> 'p image option" where
  "maskModisLst img =
     do {
       qcDay \<leftarrow> Image_select img ''QC_Day'';
       bits01 \<leftarrow> bitwiseExtract (Image qcDay) 0 1 \<bind> the_Image;
       let qaMask = Image_lte bits01 1;
       bits23 \<leftarrow> bitwiseExtract (Image qcDay) 2 3 \<bind> the_Image;
       let dataQualityMask = Image_eq bits23 0;
       bits67 \<leftarrow> bitwiseExtract (Image qcDay) 6 7 \<bind> the_Image;
       let lstErrorMask = Image_lte bits67 1;
       both \<leftarrow> Image_and qaMask dataQualityMask;
       combined \<leftarrow> Image_and both lstErrorMask;
       qaMask \<leftarrow> Image_rename combined ''qaMask'';
       withMask \<leftarrow> Image_addBands img qaMask False;
       Image_updateMask withMask qaMask
     }"

subsection \<open>The monthly composites (version 2)\<close>

text \<open>
  Modelled from the spec: the date operations of the remote platform
  (\<^verbatim>\<open>ee.Date.fromYMD\<close>, \<^verbatim>\<open>advance\<close> by months, \<^verbatim>\<open>millis\<close>) are not part of the
  repository. A date is a calendar date at midnight UTC. Advancing by months moves the
  month number and keeps the day of the month, clamped to the length of the new month;
  \<^verbatim>\<open>millis\<close> counts the milliseconds since 1970-01-01.
\<close>

record date =
  d_year :: int
  d_month :: int
  d_day :: int

definition Date_fromYMD :: "int \<Rightarrow> int \<Rightarrow> int \<Rightarrow> date" where
  "Date_fromYMD y m d = \<lparr>d_year = y, d_month = m, d_day = d\<rparr>"

definition leap_year :: "int \<Rightarrow> bool" where
  "leap_year y \<longleftrightarrow> y mod 4 = 0 \<and> (y mod 100 \<noteq> 0 \<or> y mod 400 = 0)"

definition days_in_month :: "int \<Rightarrow> int \<Rightarrow> int" where
  "days_in_month y m =
     (if m = 2 then (if leap_year y then 29 else 28)
      else if m = 4 \<or> m = 6 \<or> m = 9 \<or> m = 11 then 30 else 31)"

definition Date_advance_month :: "date \<Rightarrow> int \<Rightarrow> date" where
  "Date_advance_month d delta =
     (let t = d_year d * 12 + (d_month d - 1) + delta;
          y = t div 12;
          m = t mod 12 + 1
      in \<lparr>d_year = y, d_month = m, d_day = min (d_day d) (days_in_month y m)\<rparr>)"

definition leap_days :: "int \<Rightarrow> int" where
  "leap_days y = y div 4 - y div 100 + y div 400"

definition days_before_year :: "int \<Rightarrow> int" where
  "days_before_year y = 365 * (y - 1970) + (leap_days (y - 1) - leap_days 1969)"

definition days_before_month :: "int \<Rightarrow> int \<Rightarrow> int" where
  "days_before_month y m = sum_list (map (days_in_month y) [1..m - 1])"

definition Date_millis :: "date \<Rightarrow> int" where
  "Date_millis d =
     (days_before_year (d_year d) + days_before_month (d_year d) (d_month d) + (d_day d - 1))
       * 86400000"

text \<open>
  Modelled from the spec: \<^verbatim>\<open>ee.List.sequence(start, end, step)\<close>, the numbers from
  \<open>start\<close> to \<open>end\<close> inclusive in increments of \<open>step\<close>; \<^verbatim>\<open>ImageCollection.filterDate\<close>,
  which keeps the images whose \<^verbatim>\<open>system:time_start\<close> lies in the half-open range from
  the start date (inclusive) to the end date (exclusive); and \<^verbatim>\<open>Image.set\<close>. None of
  them is part of the repository.
\<close>

definition List_sequence :: "int \<Rightarrow> int \<Rightarrow> int \<Rightarrow> int list" where
  "List_sequence start stop step = map (\<lambda>k. start + k * step) [0..(stop - start) div step]"

definition in_date_range :: "date \<Rightarrow> date \<Rightarrow> 'p image \<Rightarrow> bool" where
  "in_date_range start stop img =
     (case properties img ''system:time_start'' of
        None \<Rightarrow> False
      | Some t \<Rightarrow> Date_millis start \<le> t \<and> t < Date_millis stop)"

definition filterDate :: "'p image list \<Rightarrow> date \<Rightarrow> date \<Rightarrow> 'p image list" where
  "filterDate coll start stop = filter (in_date_range start stop) coll"

definition Image_set :: "'p image \<Rightarrow> string \<Rightarrow> int \<Rightarrow> 'p image" where
  "Image_set img key v = img\<lparr>properties := (properties img)(key \<mapsto> v)\<rparr>"

text \<open>
  \<^verbatim>\<open>
  var year = 2018
  var n_year = 4
  var modisLST = ee.ImageCollection('MODIS/061/MOD11A2').filterBounds(roi)
      .filterDate(ee.Date.fromYMD(year, 1, 1), ee.Date.fromYMD(year + n_year, 1, 1))
      .map(scaleModisLst)
      .map(maskModisLst)
      .select(['LST_Day_1km'])
  \<close>
  The collection of the platform and the test of \<^verbatim>\<open>filterBounds\<close> against the region are
  parameters. A transform that fails on one image fails the request.
\<close>

definition year :: int where
  "year = 2018"

definition n_year :: int where
  "n_year = 4"

definition modisLST_v2 :: "('p image \<Rightarrow> bool) \<Rightarrow> 'p image list \<Rightarrow> 'p image list option" where
  "modisLST_v2 in_roi collection =
     do {
       let dated = filterDate (filter in_roi collection)
                     (Date_fromYMD year 1 1) (Date_fromYMD (year + n_year) 1 1);
       scaled \<leftarrow> those (map scaleModisLst dated);
       masked \<leftarrow> those (map maskModisLst scaled);
       those (map (\<lambda>img. Image_select img ''LST_Day_1km'') masked)
     }"

text \<open>
  \<^verbatim>\<open>
  var modisLST_month = ee.List.sequence(0, n_year * 12 - 1, 1).map(function (n) {
      var start = ee.Date.fromYMD(year, 1, 1).advance(n, 'month');
      var end = start.advance(1, 'month');
      var tmpMedian = modisLST.filterDate(start, end).median()
                              .set("system:time_start", start.millis());
      return tmpMedian;
  }).flatten();
  var modisLST_month = ee.ImageCollection.fromImages(modisLST_month);
  \<close>
  The reducer \<^verbatim>\<open>median\<close> of the platform is a parameter. Flattening a list of images
  and building the collection from the list keep the images and their order.
\<close>

definition month_start :: "int \<Rightarrow> date" where
  "month_start n = Date_advance_month (Date_fromYMD year 1 1) n"

definition modisLST_month ::
  "('p image list \<Rightarrow> 'p image) \<Rightarrow> 'p image list \<Rightarrow> 'p image list" where
  "modisLST_month median modisLST =
     map (\<lambda>n.
            let start = Date_advance_month (Date_fromYMD year 1 1) n;
                stop = Date_advance_month start 1;
                tmpMedian = Image_set (median (filterDate modisLST start stop))
                              ''system:time_start'' (Date_millis start)
            in tmpMedian)
         (List_sequence 0 (n_year * 12 - 1) 1)"

text \<open>
  The script binds the scaled and masked collection to the variable \<^verbatim>\<open>modisLST\<close> and
  the loop that builds \<^verbatim>\<open>modisLST_month\<close> reads that variable: the list of composites
  is built from the result of the first request.
\<close>

definition modisLST_month_v2 ::
  "('p image list \<Rightarrow> 'p image) \<Rightarrow> ('p image \<Rightarrow> bool) \<Rightarrow> 'p image list \<Rightarrow> 'p image list option"
  where
  "modisLST_month_v2 median in_roi collection =
     map_option (modisLST_month median) (modisLST_v2 in_roi collection)"

subsection \<open>The export request\<close>

text \<open>
  \<^verbatim>\<open>
  var roi = ee.FeatureCollection("users/QiuYuean/City_of_Detroit_Boundary")
  var folder = 'GEO874_2023FA'
  var roi_detroit = ee.Feature(roi.first())
  var roi_buffer = roi_detroit.buffer(10000).bounds()
  var crs = 'EPSG:4326'
  Export.image.toDrive({
      image: monthlyLST_month_bands,
      folder: folder,
      description: 'MOD11A2_detroit_monthly_median',
      fileNamePrefix: 'mod11a2_detroit_monthly_median',
      fileFormat: 'GeoTIFF',
      region: roi_buffer,
      scale: 1000,
      crs: crs,
  });
  \<close>
  The region is a description of a computation that the platform carries out; the
  argument of the call is a dictionary, kept as the list of its entries in the order of
  the script. The earlier call of \<^verbatim>\<open>Export.image.toDrive\<close> in the script is inside a
  comment and issues nothing.
\<close>

datatype feature_collection = FeatureCollection string

datatype feature = First feature_collection | Buffer feature int | Bounds feature

datatype 'i export_value = Str string | Num int | Region feature | Img 'i

type_synonym 'i export_request = "(string \<times> 'i export_value) list"

definition roi :: feature_collection where
  "roi = FeatureCollection ''users/QiuYuean/City_of_Detroit_Boundary''"

definition folder :: string where
  "folder = ''GEO874_2023FA''"

definition roi_detroit :: feature where
  "roi_detroit = First roi"

definition roi_buffer :: feature where
  "roi_buffer = Bounds (Buffer roi_detroit 10000)"

definition crs :: string where
  "crs = ''EPSG:4326''"

definition export_requests :: "'i \<Rightarrow> 'i export_request list" where
  "export_requests monthlyLST_month_bands =
     [[(''image'', Img monthlyLST_month_bands),
       (''folder'', Str folder),
       (''description'', Str ''MOD11A2_detroit_monthly_median''),
       (''fileNamePrefix'', Str ''mod11a2_detroit_monthly_median''),
       (''fileFormat'', Str ''GeoTIFF''),
       (''region'', Region roi_buffer),
       (''scale'', Num 1000),
       (''crs'', Str crs)]]"

subsection \<open>Reading the quality flags\<close>

text \<open>
  The reading of the packed quality-control value that the computed mask is compared
  with, following the comment of \<^verbatim>\<open>maskModisLst\<close> (bits 0-1 mandatory QA flags, bits 2-3
  data quality flag, bits 4-5 emissivity error flag, bits 6-7 LST error flag): the field
  of bits \<open>lo..hi\<close> of a value as an unsigned number, and the condition on the three
  fields that the mask tests.
\<close>

definition bit_field :: "int \<Rightarrow> nat \<Rightarrow> nat \<Rightarrow> int" where
  "bit_field q lo hi = (q div 2 ^ lo) mod 2 ^ (hi - lo + 1)"

definition qa_flags_ok :: "int \<Rightarrow> bool" where
  "qa_flags_ok q \<longleftrightarrow> bit_field q 0 1 \<le> 1 \<and> bit_field q 2 3 = 0 \<and> bit_field q 6 7 \<le> 1"

text \<open>The value of the band \<^verbatim>\<open>qaMask\<close> that \<^verbatim>\<open>maskModisLst\<close> returns, at a pixel.\<close>

definition computed_mask :: "'p image \<Rightarrow> 'p \<Rightarrow> real option" where
  "computed_mask img p =
     do { out \<leftarrow> maskModisLst img; m \<leftarrow> band out ''qaMask''; pixel m p }"

text \<open>
  What "the scaled and masked \<^verbatim>\<open>LST_Day_1km\<close> image" of a raw image is: an image with the
  metadata of the raw image and the single band \<^verbatim>\<open>LST_Day_1km\<close>, which holds the raw
  value \<open>x\<close> mapped to \<open>x * 0.02 - 273.15\<close> at the pixels whose quality value passes the
  test of the flags, and is masked at all other pixels.
\<close>

definition scaled_masked_LST :: "'p image \<Rightarrow> 'p image \<Rightarrow> bool" where
  "scaled_masked_LST raw out \<longleftrightarrow>
     properties out = properties raw
     \<and> (\<exists>r qc r'. band raw ''LST_Day_1km'' = Some r
           \<and> band raw ''QC_Day'' = Some (IntBand qc)
           \<and> bands out = [(''LST_Day_1km'', r')]
           \<and> (\<forall>p. pixel r' p =
                 (if \<exists>q. qc p = Some q \<and> qa_flags_ok q
                  then map_option (\<lambda>x. x * 0.02 - 273.15) (pixel r p) else None)))"

subsection \<open>An example image\<close>

text \<open>
  An image with a raw temperature band and a quality band, over pixels numbered by
  naturals: the quality value is 0 at pixel 0 and 5 (data quality flag 1) elsewhere.
\<close>

definition example_image :: "nat image" where
  "example_image =
     \<lparr>bands = [(''LST_Day_1km'', IntBand (\<lambda>p. Some 15000)),
               (''QC_Day'', IntBand (\<lambda>p. if p = 0 then Some 0 else Some 5))],
      properties = [''system:time_start'' \<mapsto> 1522540800000]\<rparr>"

subsection \<open>An example collection\<close>

text \<open>
  Six images: one acquired before 2018, the example image (2018-04-01), one outside
  the region, one of 2018-04-09, one of 2018-04-17 and one of 2018-05-01; the first and
  the third have no bands at all. An image is outside the region when it carries the
  mark \<^verbatim>\<open>outside_roi\<close>.
\<close>

definition example_image_old :: "nat image" where
  "example_image_old = \<lparr>bands = [], properties = [''system:time_start'' \<mapsto> 1514332800000]\<rparr>"

definition example_image_far :: "nat image" where
  "example_image_far =
     \<lparr>bands = [],
      properties = [''system:time_start'' \<mapsto> 1522540800000, ''outside_roi'' \<mapsto> 1]\<rparr>"

definition example_image_b :: "nat image" where
  "example_image_b =
     \<lparr>bands = [(''LST_Day_1km'', IntBand (\<lambda>p. Some 15200)),
               (''QC_Day'', IntBand (\<lambda>p. Some 0))],
      properties = [''system:time_start'' \<mapsto> 1523232000000]\<rparr>"

definition example_image_d :: "nat image" where
  "example_image_d =
     \<lparr>bands = [(''LST_Day_1km'', IntBand (\<lambda>p. Some 15100)),
               (''QC_Day'', IntBand (\<lambda>p. if p = 0 then Some 0 else Some 5))],
      properties = [''system:time_start'' \<mapsto> 1523923200000]\<rparr>"

definition example_image_c :: "nat image" where
  "example_image_c =
     \<lparr>bands = [(''LST_Day_1km'', IntBand (\<lambda>p. Some 14000)),
               (''QC_Day'', IntBand (\<lambda>p. Some 0))],
      properties = [''system:time_start'' \<mapsto> 1525132800000]\<rparr>"

definition example_collection :: "nat image list" where
  "example_collection =
     [example_image_old, example_image, example_image_far, example_image_b, example_image_d,
      example_image_c]"

definition example_in_roi :: "nat image \<Rightarrow> bool" where
  "example_in_roi img \<longleftrightarrow> properties img ''outside_roi'' = None"

text \<open>
  An example reducer for the parameter \<open>median\<close>: at every pixel, the median of the
  unmasked values of the images, band by band, with the band names of the first image;
  the result carries no metadata, and no band when the collection is empty. The median
  of an even number of values is the mean of the two middle ones.
\<close>

definition median_of :: "real list \<Rightarrow> real option" where
  "median_of xs =
     (if xs = [] then None
      else let s = sort xs; n = length s
           in Some (if odd n then s ! (n div 2) else (s ! (n div 2 - 1) + s ! (n div 2)) / 2))"

definition example_median :: "'p image list \<Rightarrow> 'p image" where
  "example_median coll =
     (case coll of
        [] \<Rightarrow> \<lparr>bands = [], properties = Map.empty\<rparr>
      | first # rest \<Rightarrow>
          \<lparr>bands = map (\<lambda>name. (name, RealBand (\<lambda>p.
                       median_of (List.map_filter
                                    (\<lambda>img. band img name \<bind> (\<lambda>r. pixel r p)) coll))))
                     (band_names first),
           properties = Map.empty\<rparr>)"

section \<open>Properties of the bit-field helper\<close>

lemma mask_eq_take_bit_int:
  "(x::int) AND (2 ^ n - 1) = take_bit n x"
  by (simp add: take_bit_eq_mask mask_eq_exp_minus_1)

lemma bitwiseExtract_Number:
  assumes "0 \<le> fromBit" and "fromBit \<le> toBit"
  shows "bitwiseExtract (Number v) fromBit toBit =
           Some (Number (take_bit (nat (toBit - fromBit + 1)) (drop_bit (nat fromBit) v)))"
proof -
  have size: "\<not> 1 + toBit - fromBit < 0" using assms by simp
  have eq: "1 + toBit - fromBit = toBit - fromBit + 1" by simp
  show ?thesis
    using assms size
    by (simp add: bitwiseExtract_def Number_leftShift_def Number_rightShift_def
        Number_bitwiseAnd_def mask_eq_take_bit_int eq)
qed

text \<open>
  C1. For a non-negative integer value and bit positions \<open>fromBit \<le> toBit\<close>, the helper
  returns \<open>(value >> fromBit) & ((1 << (toBit - fromBit + 1)) - 1)\<close>, which is the
  unsigned integer encoded by the bits \<open>fromBit..toBit\<close> of the value: bit \<open>k\<close> of the
  result is bit \<open>fromBit + k\<close> of the value for \<open>k\<close> below the width of the field, and
  no higher bit is set.
\<close>

theorem bitwiseExtract_formula:
  assumes "0 \<le> v" and "0 \<le> fromBit" and "fromBit \<le> toBit"
  shows "\<exists>r. bitwiseExtract (Number v) fromBit toBit = Some (Number r)
           \<and> r = drop_bit (nat fromBit) v AND (push_bit (nat (toBit - fromBit + 1)) 1 - 1)
           \<and> r = (v div 2 ^ nat fromBit) mod 2 ^ nat (toBit - fromBit + 1)
           \<and> (\<forall>k. bit r k \<longleftrightarrow> k < nat (toBit - fromBit + 1) \<and> bit v (nat fromBit + k))"
proof -
  let ?w = "nat (toBit - fromBit + 1)"
  let ?r = "take_bit ?w (drop_bit (nat fromBit) v)"
  have "bitwiseExtract (Number v) fromBit toBit = Some (Number ?r)"
    using assms(2,3) by (rule bitwiseExtract_Number)
  moreover have "?r = drop_bit (nat fromBit) v AND (push_bit ?w 1 - 1)"
    by (simp add: mask_eq_take_bit_int)
  moreover have "?r = (v div 2 ^ nat fromBit) mod 2 ^ ?w"
    by (simp add: take_bit_eq_mod drop_bit_eq_div)
  moreover have "\<forall>k. bit ?r k \<longleftrightarrow> k < ?w \<and> bit v (nat fromBit + k)"
    by (simp add: bit_take_bit_iff bit_drop_bit_eq)
  ultimately show ?thesis by blast
qed

theorem bitwiseExtract_formula_witness:
  "(0::int) \<le> 182 \<and> (0::int) \<le> 2 \<and> (2::int) \<le> 3
     \<and> bitwiseExtract (Number 182 :: unit ee_object) 2 3 = Some (Number 1)"
  using bitwiseExtract_formula [of 182 2 3, where 'a = unit] by simp

text \<open>
  C9. For a non-negative integer value and bit positions \<open>fromBit \<le> toBit\<close>, the result
  of the helper is bounded: \<open>0 \<le> result < 2^(toBit - fromBit + 1)\<close>; a field of two bits
  yields a value in \<open>0..3\<close>.
\<close>

theorem bitwiseExtract_bounded:
  assumes "0 \<le> v" and "0 \<le> fromBit" and "fromBit \<le> toBit"
  shows "\<exists>r. bitwiseExtract (Number v) fromBit toBit = Some (Number r)
           \<and> 0 \<le> r \<and> r < 2 ^ nat (toBit - fromBit + 1)
           \<and> (toBit = fromBit + 1 \<longrightarrow> r \<in> {0..3})"
proof -
  let ?w = "nat (toBit - fromBit + 1)"
  let ?r = "take_bit ?w (drop_bit (nat fromBit) v)"
  have res: "bitwiseExtract (Number v) fromBit toBit = Some (Number ?r)"
    using assms(2,3) by (rule bitwiseExtract_Number)
  have lo: "0 \<le> ?r" by simp
  have hi: "?r < 2 ^ ?w" by (rule take_bit_int_less_exp)
  have two: "?r \<in> {0..3}" if "toBit = fromBit + 1"
  proof -
    have "?w = 2" using that by simp
    with hi have "?r < 4" by simp
    with lo show ?thesis by simp
  qed
  from res lo hi two show ?thesis by blast
qed

theorem bitwiseExtract_bounded_witness:
  "(0::int) \<le> 255 \<and> (0::int) \<le> 6 \<and> (6::int) \<le> 7
     \<and> (\<exists>r. bitwiseExtract (Number 255 :: unit ee_object) 6 7 = Some (Number r)
            \<and> r \<in> {0..3})"
  using bitwiseExtract_bounded [of 255 6 7, where 'a = unit] by auto

section \<open>Properties of the per-image transforms\<close>

subsection \<open>Auxiliary facts\<close>

lemma Image_select_Some:
  "band img n = Some r \<Longrightarrow> Image_select img n = Some (img\<lparr>bands := [(n, r)]\<rparr>)"
  by (simp add: Image_select_def)

lemma bitwiseExtract_Image:
  assumes "0 \<le> lo" and "lo \<le> hi"
  shows "bitwiseExtract (Image (img\<lparr>bands := [(n, IntBand f)]\<rparr>)) lo hi =
           Some (Image \<lparr>bands = [(n, IntBand (\<lambda>p. map_option
                     (\<lambda>v. take_bit (nat (hi - lo + 1)) (drop_bit (nat lo) v)) (f p)))],
                 properties = Map.empty\<rparr>)"
proof -
  have size: "\<not> 1 + hi - lo < 0" using assms by simp
  have eq: "1 + hi - lo = hi - lo + 1" by simp
  show ?thesis
    using assms size
    by (simp add: bitwiseExtract_def Number_leftShift_def Image_rightShift_def
        Image_bitwiseAnd_def Image_int_op_def band_names_def mask_eq_take_bit_int eq
        option.map_comp comp_def)
qed

lemma band_Some_name: "band img n = Some r \<Longrightarrow> n \<in> set (band_names img)"
  by (auto simp: band_def band_names_def dest: map_of_SomeD intro: rev_image_eqI)

lemma case_if_Some:
  "(case (if c then Some a else None) of None \<Rightarrow> d | Some r' \<Rightarrow> r') = (if c then a else d)"
  by simp

lemma band_map_bands:
  "map_of (map (\<lambda>(n, r). (n, g n r)) xs) k = map_option (g k) (map_of xs k)"
  by (induction xs) auto

lemma pixel_updateMask:
  "pixel (raster_updateMask r m) p = (if mask_keeps m p then pixel r p else None)"
  by (cases r) simp_all

lemma scale_explicit:
  assumes "band img ''LST_Day_1km'' = Some r"
  shows "scaleModisLst img = Some (img\<lparr>bands :=
           map (\<lambda>(n, s). (n, if n = ''LST_Day_1km''
                               then RealBand (\<lambda>p. map_option (\<lambda>x. x * 0.02 - 273.15) (pixel r p))
                               else s)) (bands img)\<rparr>)"
proof -
  have name: "''LST_Day_1km'' \<in> set (band_names img)"
    using assms by (rule band_Some_name)
  show ?thesis
    using name assms
    by (simp add: scaleModisLst_def Image_select_def Image_add_def Image_multiply_def
        Image_real_op_def Image_addBands_def band_def option.map_comp comp_def
        case_if_Some cong del: if_weak_cong) 
qed


lemma mask_explicit:
  assumes qc: "band img ''QC_Day'' = Some (IntBand qc)"
    and fresh: "''qaMask'' \<notin> set (band_names img)"
  shows "\<exists>M. maskModisLst img =
            Some (img\<lparr>bands := map (\<lambda>(b, r). (b, raster_updateMask r M))
                                  (bands img @ [(''qaMask'', M)])\<rparr>)
          \<and> (\<forall>p. pixel M p = map_option (\<lambda>q. if qa_flags_ok q then 1 else 0) (qc p))"
proof -
  have sel: "Image_select img ''QC_Day'' = Some (img\<lparr>bands := [(''QC_Day'', IntBand qc)]\<rparr>)"
    using qc by (rule Image_select_Some)
  have b01: "bitwiseExtract (Image (img\<lparr>bands := [(''QC_Day'', IntBand qc)]\<rparr>)) 0 1
      = Some (Image \<lparr>bands = [(''QC_Day'', IntBand (\<lambda>p. map_option (\<lambda>v. take_bit 2 (drop_bit 0 v)) (qc p)))],
              properties = Map.empty\<rparr>)"
    using bitwiseExtract_Image [where lo = 0 and hi = 1 and img = img and n = "''QC_Day''" and f = qc] by simp
  have b23: "bitwiseExtract (Image (img\<lparr>bands := [(''QC_Day'', IntBand qc)]\<rparr>)) 2 3
      = Some (Image \<lparr>bands = [(''QC_Day'', IntBand (\<lambda>p. map_option (\<lambda>v. take_bit 2 (drop_bit 2 v)) (qc p)))],
              properties = Map.empty\<rparr>)"
    using bitwiseExtract_Image [where lo = 2 and hi = 3 and img = img and n = "''QC_Day''" and f = qc] by simp
  have b67: "bitwiseExtract (Image (img\<lparr>bands := [(''QC_Day'', IntBand qc)]\<rparr>)) 6 7
      = Some (Image \<lparr>bands = [(''QC_Day'', IntBand (\<lambda>p. map_option (\<lambda>v. take_bit 2 (drop_bit 6 v)) (qc p)))],
              properties = Map.empty\<rparr>)"
    using bitwiseExtract_Image [where lo = 6 and hi = 7 and img = img and n = "''QC_Day''" and f = qc] by simp
  let ?M = "raster_and (raster_and
      (IntBand (\<lambda>p. map_option (\<lambda>x. if x \<le> 1 then 1 else 0)
          (pixel (IntBand (\<lambda>p. map_option (\<lambda>v. take_bit 2 (drop_bit 0 v)) (qc p))) p)))
      (IntBand (\<lambda>p. map_option (\<lambda>x. if x = 0 then 1 else 0)
          (pixel (IntBand (\<lambda>p. map_option (\<lambda>v. take_bit 2 (drop_bit 2 v)) (qc p))) p))))
      (IntBand (\<lambda>p. map_option (\<lambda>x. if x \<le> 1 then 1 else 0)
          (pixel (IntBand (\<lambda>p. map_option (\<lambda>v. take_bit 2 (drop_bit 6 v)) (qc p))) p)))"
  have run: "maskModisLst img =
            Some (img\<lparr>bands := map (\<lambda>(b, r). (b, raster_updateMask r ?M))
                                  (bands img @ [(''qaMask'', ?M)])\<rparr>)"
    unfolding maskModisLst_def sel
    using fresh
    by (simp add: b01 b23 b67 Image_lte_def Image_eq_def Image_compare_def Image_and_def
        Image_rename_def Image_addBands_def Image_updateMask_def band_names_def
        del: pixel.simps)
  have val: "pixel ?M p = map_option (\<lambda>q. if qa_flags_ok q then 1 else 0) (qc p)" for p
    by (cases "qc p")
      (simp_all add: raster_and_def qa_flags_ok_def bit_field_def take_bit_eq_mod drop_bit_eq_div)
  from run val show ?thesis by blast
qed


lemma qa_flags_ok_take_bit:
  "qa_flags_ok q \<longleftrightarrow>
     take_bit 2 q \<le> 1 \<and> take_bit 2 (drop_bit 2 q) = 0 \<and> take_bit 2 (drop_bit 6 q) \<le> 1"
  by (simp add: qa_flags_ok_def bit_field_def take_bit_eq_mod drop_bit_eq_div)

lemma field_agree:
  assumes "\<forall>k. k \<noteq> 4 \<and> k \<noteq> 5 \<longrightarrow> bit q k = bit q' k" and "lo + 2 \<le> 4 \<or> 6 \<le> lo"
  shows "take_bit 2 (drop_bit lo (q::int)) = take_bit 2 (drop_bit lo (q'::int))"
proof (rule bit_eqI)
  fix n
  show "bit (take_bit 2 (drop_bit lo q)) n = bit (take_bit 2 (drop_bit lo q')) n"
  proof (cases "n < 2")
    case True
    with assms(2) have "lo + n \<noteq> 4 \<and> lo + n \<noteq> 5" by auto
    with assms(1) have "bit q (lo + n) = bit q' (lo + n)" by blast
    then show ?thesis by (simp add: bit_take_bit_iff bit_drop_bit_eq)
  next
    case False
    then show ?thesis by (simp add: bit_take_bit_iff)
  qed
qed

lemma qa_flags_ok_emissivity:
  assumes "\<forall>k. k \<noteq> 4 \<and> k \<noteq> 5 \<longrightarrow> bit q k = bit q' k"
  shows "qa_flags_ok q = qa_flags_ok q'"
proof -
  have "take_bit 2 (drop_bit 0 q) = take_bit 2 (drop_bit 0 q')"
    using assms by (rule field_agree) simp
  moreover have "take_bit 2 (drop_bit 2 q) = take_bit 2 (drop_bit 2 q')"
    using assms by (rule field_agree) simp
  moreover have "take_bit 2 (drop_bit 6 q) = take_bit 2 (drop_bit 6 q')"
    using assms by (rule field_agree) simp
  ultimately show ?thesis by (simp add: qa_flags_ok_take_bit)
qed

lemma mask_result:
  assumes qc: "band img ''QC_Day'' = Some (IntBand qc)"
    and fresh: "''qaMask'' \<notin> set (band_names img)"
  shows "\<exists>out m. maskModisLst img = Some out
        \<and> band_names out = band_names img @ [''qaMask'']
        \<and> properties out = properties img
        \<and> band out ''qaMask'' = Some m
        \<and> (\<forall>p. pixel m p = (if \<exists>q. qc p = Some q \<and> qa_flags_ok q then Some 1 else None))
        \<and> (\<forall>n r. band img n = Some r \<longrightarrow>
              (\<exists>r'. band out n = Some r' \<and>
                 (\<forall>p. pixel r' p = (if \<exists>q. qc p = Some q \<and> qa_flags_ok q then pixel r p else None))))"
proof -
  from mask_explicit [OF qc fresh] obtain M where
    run: "maskModisLst img =
            Some (img\<lparr>bands := map (\<lambda>(b, r). (b, raster_updateMask r M))
                                  (bands img @ [(''qaMask'', M)])\<rparr>)"
    and val: "\<And>p. pixel M p = map_option (\<lambda>q. if qa_flags_ok q then 1 else 0) (qc p)"
    by blast
  let ?out = "img\<lparr>bands := map (\<lambda>(b, r). (b, raster_updateMask r M))
                                  (bands img @ [(''qaMask'', M)])\<rparr>"
  have keeps: "mask_keeps M p \<longleftrightarrow> (\<exists>q. qc p = Some q \<and> qa_flags_ok q)" for p
    by (cases "qc p") (simp_all add: mask_keeps_def val)
  have names: "band_names ?out = band_names img @ [''qaMask'']"
    by (auto simp: band_names_def split: prod.splits)
  have props: "properties ?out = properties img" by simp
  have nomask: "map_of (bands img) ''qaMask'' = None"
    using fresh by (simp add: band_names_def map_of_eq_None_iff)
  have lookup: "band ?out n = map_option (\<lambda>r. raster_updateMask r M)
                                (map_of (bands img @ [(''qaMask'', M)]) n)" for n
    unfolding band_def
    using band_map_bands [where g = "\<lambda>b r. raster_updateMask r M"
        and xs = "bands img @ [(''qaMask'', M)]" and k = n]
    by (simp del: map_append map_of_append)
  have qa: "band ?out ''qaMask'' = Some (raster_updateMask M M)"
    by (simp only: lookup) (simp add: map_add_def nomask)
  have qapx: "pixel (raster_updateMask M M) p
                = (if \<exists>q. qc p = Some q \<and> qa_flags_ok q then Some 1 else None)" for p
    by (cases "qc p") (simp_all add: pixel_updateMask keeps val)
  have others: "\<exists>r'. band ?out n = Some r' \<and>
        (\<forall>p. pixel r' p = (if \<exists>q. qc p = Some q \<and> qa_flags_ok q then pixel r p else None))"
    if "band img n = Some r" for n r
  proof -
    have "band ?out n = Some (raster_updateMask r M)"
      using that by (simp only: lookup) (simp add: map_add_def band_def nomask)
    then show ?thesis by (simp add: pixel_updateMask keeps)
  qed
  from run names props qa qapx others show ?thesis by blast
qed


subsection \<open>The scale step\<close>

text \<open>
  C3. For every image with a band \<^verbatim>\<open>LST_Day_1km\<close>, \<^verbatim>\<open>scaleModisLst\<close> returns an image
  whose band \<^verbatim>\<open>LST_Day_1km\<close> holds, at every unmasked pixel, the raw value \<open>x\<close> mapped to
  \<open>x * 0.02 - 273.15\<close>; the scaled band takes the place of the original one (the list of
  band names is unchanged).
\<close>

theorem scaleModisLst_celsius:
  assumes "band img ''LST_Day_1km'' = Some r"
  shows "\<exists>out r'. scaleModisLst img = Some out
           \<and> band_names out = band_names img
           \<and> band out ''LST_Day_1km'' = Some r'
           \<and> (\<forall>p. pixel r' p = map_option (\<lambda>x. x * 0.02 - 273.15) (pixel r p))"
proof -
  let ?s = "RealBand (\<lambda>p. map_option (\<lambda>x. x * 0.02 - 273.15) (pixel r p))"
  let ?out = "img\<lparr>bands := map (\<lambda>(n, s). (n, if n = ''LST_Day_1km'' then ?s else s)) (bands img)\<rparr>"
  have run: "scaleModisLst img = Some ?out"
    using assms by (rule scale_explicit)
  have names: "band_names ?out = band_names img"
    by (auto simp: band_names_def split: prod.splits)
  have lst: "band ?out ''LST_Day_1km'' = Some ?s"
    using assms by (simp add: band_def band_map_bands)
  have px: "\<forall>p. pixel ?s p = map_option (\<lambda>x. x * 0.02 - 273.15) (pixel r p)"
    by simp
  from run names lst px show ?thesis by blast
qed

theorem scaleModisLst_celsius_witness:
  "band example_image ''LST_Day_1km'' = Some (IntBand (\<lambda>p. Some 15000))
     \<and> (\<exists>out r'. scaleModisLst example_image = Some out
           \<and> band out ''LST_Day_1km'' = Some r' \<and> pixel r' 7 = Some 26.85)"
proof -
  have h: "band example_image ''LST_Day_1km'' = Some (IntBand (\<lambda>p. Some 15000))"
    by (simp add: example_image_def band_def)
  from scaleModisLst_celsius [OF h] obtain out r' where
    "scaleModisLst example_image = Some out" "band out ''LST_Day_1km'' = Some r'"
    "\<forall>p. pixel r' p = map_option (\<lambda>x. x * 0.02 - 273.15) (pixel (IntBand (\<lambda>p. Some 15000)) p)"
    by blast
  moreover from this have "pixel r' 7 = Some 26.85" by simp
  ultimately show ?thesis using h by blast
qed

text \<open>
  C10. \<^verbatim>\<open>scaleModisLst\<close> changes only the band \<^verbatim>\<open>LST_Day_1km\<close>: the names and the
  metadata are those of the input, every band of another name is unchanged, at its
  position, and selecting \<^verbatim>\<open>QC_Day\<close> from the output, as the masking step does, gives
  what selecting it from the input gives.
\<close>

theorem scaleModisLst_frame:
  assumes "scaleModisLst img = Some out"
  shows "band_names out = band_names img
       \<and> properties out = properties img
       \<and> (\<forall>n. n \<noteq> ''LST_Day_1km'' \<longrightarrow> band out n = band img n)
       \<and> (\<forall>i < length (bands img). fst (bands img ! i) \<noteq> ''LST_Day_1km''
              \<longrightarrow> bands out ! i = bands img ! i)
       \<and> Image_select out ''QC_Day'' = Image_select img ''QC_Day''"
proof -
  obtain r where r: "band img ''LST_Day_1km'' = Some r"
    using assms by (cases "band img ''LST_Day_1km''") (simp_all add: scaleModisLst_def Image_select_def)
  let ?s = "RealBand (\<lambda>p. map_option (\<lambda>x. x * 0.02 - 273.15) (pixel r p))"
  let ?g = "\<lambda>n s. if n = ''LST_Day_1km'' then ?s else s"
  have out: "out = img\<lparr>bands := map (\<lambda>(n, s). (n, ?g n s)) (bands img)\<rparr>"
    using scale_explicit [OF r] assms by simp
  have names: "band_names out = band_names img"
    unfolding out by (auto simp: band_names_def split: prod.splits)
  have props: "properties out = properties img"
    unfolding out by simp
  have other: "band out n = band img n" if "n \<noteq> ''LST_Day_1km''" for n
    unfolding out band_def using that
    by (simp add: band_map_bands [where g = ?g] option.map_ident cong: option.map_cong)
  have pos: "bands out ! i = bands img ! i"
    if "i < length (bands img)" "fst (bands img ! i) \<noteq> ''LST_Day_1km''" for i
    unfolding out using that by (simp add: case_prod_beta prod_eq_iff)
  have qc: "Image_select out ''QC_Day'' = Image_select img ''QC_Day''"
    using other [of "''QC_Day''"] unfolding Image_select_def
    by (simp add: out)
  from names props other pos qc show ?thesis by blast
qed


theorem scaleModisLst_frame_witness:
  "\<exists>out. scaleModisLst example_image = Some out
       \<and> band_names out = [''LST_Day_1km'', ''QC_Day'']
       \<and> band out ''QC_Day'' = band example_image ''QC_Day''"
proof -
  have "band example_image ''LST_Day_1km'' = Some (IntBand (\<lambda>p. Some 15000))"
    by (simp add: example_image_def band_def)
  from scale_explicit [OF this] obtain out where out: "scaleModisLst example_image = Some out"
    by blast
  from scaleModisLst_frame [OF out]
  have "band_names out = band_names example_image"
    and "band out ''QC_Day'' = band example_image ''QC_Day''"
    by simp_all
  moreover have "band_names example_image = [''LST_Day_1km'', ''QC_Day'']"
    by (simp add: band_names_def example_image_def)
  ultimately show ?thesis using out by simp
qed


subsection \<open>The mask step\<close>

text \<open>
  C8. For every image with an integer band \<^verbatim>\<open>QC_Day\<close> (and no band called \<^verbatim>\<open>qaMask\<close>
  yet), the mask computed by \<^verbatim>\<open>maskModisLst\<close> keeps a pixel if and only if, in the
  \<^verbatim>\<open>QC_Day\<close> value of that pixel, the mandatory QA flag (bits 0-1) is at most 1, the data
  quality flag (bits 2-3) is 0 and the LST error flag (bits 6-7) is at most 1: the
  pixel of every band of the input is kept where this holds and masked where it does
  not. The combined mask is added as a last band named \<^verbatim>\<open>qaMask\<close>. The emissivity
  error flag (bits 4-5) does not affect the mask: two quality values that differ in
  those bits only give the same mask value.
\<close>

theorem maskModisLst_mask:
  assumes qc: "band img ''QC_Day'' = Some (IntBand qc)"
    and fresh: "''qaMask'' \<notin> set (band_names img)"
  shows "\<exists>out m. maskModisLst img = Some out
        \<and> band_names out = band_names img @ [''qaMask'']
        \<and> band out ''qaMask'' = Some m
        \<and> (\<forall>p. pixel m p = (if \<exists>q. qc p = Some q \<and> qa_flags_ok q then Some 1 else None))
        \<and> (\<forall>n r. band img n = Some r \<longrightarrow>
              (\<exists>r'. band out n = Some r' \<and>
                 (\<forall>p. pixel r' p =
                    (if \<exists>q. qc p = Some q \<and> qa_flags_ok q then pixel r p else None))))
        \<and> (\<forall>img' qc' p q q'.
              band img' ''QC_Day'' = Some (IntBand qc')
              \<and> ''qaMask'' \<notin> set (band_names img')
              \<and> qc p = Some q \<and> qc' p = Some q'
              \<and> (\<forall>k. k \<noteq> 4 \<and> k \<noteq> 5 \<longrightarrow> bit q k = bit q' k)
              \<longrightarrow> computed_mask img' p = computed_mask img p)"
proof -
  have at_pixel: "computed_mask i p = (if qa_flags_ok v then Some 1 else None)"
    if "band i ''QC_Day'' = Some (IntBand c)" "''qaMask'' \<notin> set (band_names i)" "c p = Some v"
    for i :: "'a image" and c p v
  proof -
    from mask_result [OF that(1,2)] obtain out m where
      "maskModisLst i = Some out" "band out ''qaMask'' = Some m"
      "\<forall>p. pixel m p = (if \<exists>q. c p = Some q \<and> qa_flags_ok q then Some 1 else None)"
      by blast
    then show ?thesis using that(3) by (simp add: computed_mask_def)
  qed
  have indep: "computed_mask img' p = computed_mask img p"
    if "band img' ''QC_Day'' = Some (IntBand qc')" "''qaMask'' \<notin> set (band_names img')"
      "qc p = Some q" "qc' p = Some q'" "\<forall>k. k \<noteq> 4 \<and> k \<noteq> 5 \<longrightarrow> bit q k = bit q' k"
    for img' :: "'a image" and qc' p q q'
  proof -
    have "qa_flags_ok q = qa_flags_ok q'"
      using that(5) by (rule qa_flags_ok_emissivity)
    then show ?thesis
      using at_pixel [OF that(1,2,4)] at_pixel [OF qc fresh that(3)] by simp
  qed
  from mask_result [OF qc fresh] obtain out m where
    "maskModisLst img = Some out" "band_names out = band_names img @ [''qaMask'']"
    "band out ''qaMask'' = Some m"
    "\<forall>p. pixel m p = (if \<exists>q. qc p = Some q \<and> qa_flags_ok q then Some 1 else None)"
    "\<forall>n r. band img n = Some r \<longrightarrow>
        (\<exists>r'. band out n = Some r' \<and>
           (\<forall>p. pixel r' p =
              (if \<exists>q. qc p = Some q \<and> qa_flags_ok q then pixel r p else None)))"
    by blast
  with indep show ?thesis by blast
qed

theorem maskModisLst_mask_witness:
  "band example_image ''QC_Day'' = Some (IntBand (\<lambda>p. if p = 0 then Some 0 else Some 5))
     \<and> ''qaMask'' \<notin> set (band_names example_image)
     \<and> (\<exists>out m. maskModisLst example_image = Some out
           \<and> band_names out = [''LST_Day_1km'', ''QC_Day'', ''qaMask'']
           \<and> band out ''qaMask'' = Some m
           \<and> pixel m 0 = Some 1 \<and> pixel m 1 = None)"
proof -
  have h1: "band example_image ''QC_Day'' = Some (IntBand (\<lambda>p. if p = 0 then Some 0 else Some 5))"
    by (simp add: example_image_def band_def)
  have h2: "''qaMask'' \<notin> set (band_names example_image)"
    by (simp add: example_image_def band_names_def)
  have ok: "qa_flags_ok 0" "\<not> qa_flags_ok 5"
    by (simp_all add: qa_flags_ok_def bit_field_def)
  from maskModisLst_mask [OF h1 h2] obtain out m where
    out: "maskModisLst example_image = Some out"
      "band_names out = band_names example_image @ [''qaMask'']"
      "band out ''qaMask'' = Some m"
    and px: "\<forall>p. pixel m p =
        (if \<exists>q. (if p = 0 then Some 0 else Some 5) = Some q \<and> qa_flags_ok q then Some 1 else None)"
    by blast
  have "pixel m 0 = Some 1" using px ok by simp
  moreover have "pixel m 1 = None" using px ok by simp
  moreover have "band_names out = [''LST_Day_1km'', ''QC_Day'', ''qaMask'']"
    using out(2) by (simp add: example_image_def band_names_def)
  ultimately show ?thesis using h1 h2 out by blast
qed

section \<open>Properties of the monthly composites\<close>

subsection \<open>Calendar arithmetic\<close>

lemma div_step:
  fixes y c :: int
  assumes "0 < c"
  shows "y div c - (y - 1) div c = (if y mod c = 0 then 1 else 0)"
proof (cases "y mod c = 0")
  case True
  then have "y = c * (y div c)" by auto
  then have "y - 1 = c * (y div c - 1) + (c - 1)"
    by (simp add: right_diff_distrib)
  then have "(y - 1) div c = y div c - 1"
    by (rule int_div_pos_eq) (simp_all add: assms)
  with True show ?thesis by simp
next
  case False
  have pos: "0 < y mod c" using False assms
    by (simp add: order_less_le)
  have "y - 1 = c * (y div c) + (y mod c - 1)"
    by (simp add: algebra_simps)
  then have "(y - 1) div c = y div c"
  proof (rule int_div_pos_eq)
    show "0 \<le> y mod c - 1" using pos by simp
    have "y mod c < c" using assms by simp
    then show "y mod c - 1 < c" by simp
  qed
  with False show ?thesis by simp
qed

lemma leap_count:
  assumes "B \<Longrightarrow> A" and "C \<Longrightarrow> B"
  shows "(if A then 1 else 0) - (if B then 1 else 0) + (if C then 1 else 0)
           = (if A \<and> (\<not> B \<or> C) then 1 else (0::int))"
proof (cases B)
  case True
  then have A using assms(1) by simp
  with True show ?thesis by simp
next
  case False
  then have "\<not> C" using assms(2) by blast
  with False show ?thesis by simp
qed

lemma leap_days_step: "leap_days y - leap_days (y - 1) = (if leap_year y then 1 else 0)"
proof -
  have d4: "y div 4 - (y - 1) div 4 = (if y mod 4 = 0 then 1 else 0)"
    by (rule div_step) simp
  have d100: "y div 100 - (y - 1) div 100 = (if y mod 100 = 0 then 1 else 0)"
    by (rule div_step) simp
  have d400: "y div 400 - (y - 1) div 400 = (if y mod 400 = 0 then 1 else 0)"
    by (rule div_step) simp
  have m1: "y mod 4 = 0" if "y mod 100 = 0"
  proof -
    from that have "100 dvd y" by (simp only: mod_eq_0_iff_dvd)
    moreover have "(4::int) dvd 100" by simp
    ultimately have "4 dvd y" by (rule dvd_trans [rotated])
    then show ?thesis by (simp only: mod_eq_0_iff_dvd)
  qed
  have m2: "y mod 100 = 0" if "y mod 400 = 0"
  proof -
    from that have "400 dvd y" by (simp only: mod_eq_0_iff_dvd)
    moreover have "(100::int) dvd 400" by simp
    ultimately have "100 dvd y" by (rule dvd_trans [rotated])
    then show ?thesis by (simp only: mod_eq_0_iff_dvd)
  qed
  have regroup: "(a - b + c) - (a' - b' + c') = (a - a') - (b - b') + (c - c')"
    for a b c a' b' c' :: int
    by simp
  have "leap_days y - leap_days (y - 1)
      = (y div 4 - (y - 1) div 4) - (y div 100 - (y - 1) div 100) + (y div 400 - (y - 1) div 400)"
    unfolding leap_days_def by (rule regroup)
  also have "\<dots> = (if leap_year y then 1 else 0)"
    unfolding d4 d100 d400 leap_year_def
    by (rule leap_count) (fact m1, fact m2)
  finally show ?thesis .
qed

lemma days_in_month_ge: "28 \<le> days_in_month y m"
  by (simp add: days_in_month_def)

lemma div_12_shift: "(24216 + n) div 12 = 2018 + n div (12::int)"
  using div_mult_self1 [of 12 n 2018] by (simp add: add.commute)

lemma mod_12_shift: "(24216 + n) mod 12 = n mod (12::int)"
  using mod_mult_self1 [of n 2018 12] by (simp add: add.commute)

lemma min_day_1: "min 1 (days_in_month y m) = 1"
  using days_in_month_ge [of y m] by simp

lemma month_start_explicit:
  "month_start n = Date_fromYMD (2018 + n div 12) (n mod 12 + 1) 1"
  by (simp add: month_start_def Date_advance_month_def Date_fromYMD_def year_def Let_def
      div_12_shift mod_12_shift min_day_1)

lemma advance_month_start:
  "Date_advance_month (month_start n) 1 = month_start (n + 1)"
proof -
  have d: "(24217 + n) div 12 = 2018 + (n + 1) div 12"
    using div_12_shift [of "n + 1"] by simp
  have m: "(24217 + n) mod 12 = (n + 1) mod 12"
    using mod_12_shift [of "n + 1"] by simp
  show ?thesis
    by (simp add: month_start_explicit Date_advance_month_def Date_fromYMD_def Let_def
        d m min_day_1)
qed

lemma days_before_year_Suc:
  "days_before_year (1 + y) = days_before_year y + 365 + (if leap_year y then 1 else 0)"
  using leap_days_step [of y] by (simp add: days_before_year_def)

lemma days_before_month_Suc:
  assumes "1 \<le> m"
  shows "days_before_month y (m + 1) = days_before_month y m + days_in_month y m"
  using assms by (simp add: days_before_month_def upto_rec2)

lemma days_before_month_1: "days_before_month y 1 = 0"
  by (simp add: days_before_month_def)

lemma days_before_month_12:
  "days_before_month y 12 + days_in_month y 12 = 365 + (if leap_year y then 1 else 0)"
  by (simp add: days_before_month_def days_in_month_def upto_rec1)

lemma millis_advance:
  assumes "1 \<le> m" and "m \<le> 12"
  shows "Date_millis (Date_advance_month (Date_fromYMD y m 1) 1)
           = Date_millis (Date_fromYMD y m 1) + days_in_month y m * 86400000"
proof (cases "m = 12")
  case True
  have "Date_advance_month (Date_fromYMD y 12 1) 1 = Date_fromYMD (y + 1) 1 1"
    by (simp add: Date_advance_month_def Date_fromYMD_def Let_def min_day_1)
  then show ?thesis
    using days_before_month_12 [of y]
    by (simp add: True Date_millis_def Date_fromYMD_def days_before_year_Suc
        days_before_month_1 algebra_simps)
next
  case False
  with assms have m: "0 \<le> m" "m < 12" by simp_all
  have d: "m div 12 = 0"
    using m by simp
  have r: "m mod 12 = m"
    using m by simp
  have "Date_advance_month (Date_fromYMD y m 1) 1 = Date_fromYMD y (m + 1) 1"
    by (simp add: Date_advance_month_def Date_fromYMD_def Let_def min_day_1 d r)
  then show ?thesis
    using days_before_month_Suc [OF assms(1), of y]
    by (simp add: Date_millis_def Date_fromYMD_def algebra_simps)
qed

lemma millis_month_start_Suc:
  "Date_millis (month_start (n + 1))
     = Date_millis (month_start n)
       + days_in_month (2018 + n div 12) (n mod 12 + 1) * 86400000"
proof -
  let ?d = "Date_fromYMD (2018 + n div 12) (n mod 12 + 1) 1"
  have "Date_millis (month_start (n + 1)) = Date_millis (Date_advance_month (month_start n) 1)"
    by (simp only: advance_month_start)
  also have "\<dots> = Date_millis (Date_advance_month ?d 1)"
    by (simp only: month_start_explicit)
  also have "\<dots> = Date_millis ?d + days_in_month (2018 + n div 12) (n mod 12 + 1) * 86400000"
    by (rule millis_advance) simp_all
  also have "?d = month_start n"
    by (simp only: month_start_explicit)
  finally show ?thesis .
qed

lemma millis_month_start_less:
  "Date_millis (month_start n) < Date_millis (month_start (n + 1))"
  using days_in_month_ge [of "2018 + n div 12" "n mod 12 + 1"]
  by (simp add: millis_month_start_Suc)

lemma interval_exists:
  fixes b :: "nat \<Rightarrow> int"
  assumes "b 0 \<le> t" and "t < b N"
  shows "\<exists>n<N. b n \<le> t \<and> t < b (Suc n)"
  using assms
proof (induction N)
  case 0
  then show ?case by simp
next
  case (Suc N)
  show ?case
  proof (cases "t < b N")
    case True
    with Suc obtain n where "n < N" "b n \<le> t" "t < b (Suc n)" by blast
    then show ?thesis using less_Suc_eq by blast
  next
    case False
    with Suc.prems show ?thesis by auto
  qed
qed

lemma interval_unique:
  fixes b :: "nat \<Rightarrow> int"
  assumes mono: "\<And>n. b n < b (Suc n)"
    and n: "b n \<le> t" "t < b (Suc n)"
    and m: "b m \<le> t" "t < b (Suc m)"
  shows "n = m"
proof (rule ccontr)
  assume "n \<noteq> m"
  then consider "n < m" | "m < n" by linarith
  then show False
  proof cases
    case 1
    then have "b (Suc n) \<le> b m"
      using lift_Suc_mono_le [of b "Suc n" m] mono by (simp add: less_imp_le)
    with n m show False by simp
  next
    case 2
    then have "b (Suc m) \<le> b n"
      using lift_Suc_mono_le [of b "Suc m" n] mono by (simp add: less_imp_le)
    with n m show False by simp
  qed
qed

lemma month_partition:
  assumes "Date_millis (month_start 0) \<le> t" and "t < Date_millis (month_start (int N))"
  shows "\<exists>!n. n < N \<and> Date_millis (month_start (int n)) \<le> t
                \<and> t < Date_millis (month_start (int n + 1))"
proof -
  let ?b = "\<lambda>n. Date_millis (month_start (int n))"
  have suc: "?b (Suc n) = Date_millis (month_start (int n + 1))" for n
    by (simp add: add.commute)
  have mono: "?b n < ?b (Suc n)" for n
    unfolding suc by (rule millis_month_start_less)
  from interval_exists [of ?b t N] assms
  obtain n where n: "n < N" "?b n \<le> t" "t < ?b (Suc n)" by auto
  show ?thesis
  proof (rule ex1I [of _ n])
    show "n < N \<and> ?b n \<le> t \<and> t < Date_millis (month_start (int n + 1))"
      using n(1,2) n(3) [unfolded suc] by blast
  next
    fix m
    assume "m < N \<and> ?b m \<le> t \<and> t < Date_millis (month_start (int m + 1))"
    then have mf: "?b m \<le> t" "t < ?b (Suc m)" unfolding suc by blast+
    show "m = n" by (rule interval_unique [of ?b, OF mono mf n(2,3)])
  qed
qed

lemma month_start_0: "month_start 0 = Date_fromYMD 2018 1 1"
  by (simp add: month_start_explicit)

lemma month_start_48: "month_start 48 = Date_fromYMD 2022 1 1"
  by (simp add: month_start_explicit)

lemma length_modisLST_month: "length (modisLST_month median coll) = 48"
  by (simp add: modisLST_month_def List_sequence_def n_year_def)

lemma nth_modisLST_month:
  assumes "n < 48"
  shows "modisLST_month median coll ! n =
           Image_set (median (filterDate coll (month_start (int n)) (month_start (int n + 1))))
             ''system:time_start'' (Date_millis (month_start (int n)))"
proof -
  have "List_sequence 0 (n_year * 12 - 1) 1 ! n = int n"
    using assms by (simp add: List_sequence_def n_year_def)
  moreover have "n < length (List_sequence 0 (n_year * 12 - 1) 1)"
    using assms by (simp add: List_sequence_def n_year_def)
  ultimately show ?thesis
    by (simp add: modisLST_month_def Let_def month_start_def [symmetric] advance_month_start)
qed

subsection \<open>The collection and the list of composites\<close>

lemma scale_properties:
  assumes "scaleModisLst img = Some out"
  shows "properties out = properties img"
  using assms
  by (auto simp: scaleModisLst_def Image_select_def Image_addBands_def Let_def split: bind_splits)

lemma mask_properties:
  assumes "maskModisLst img = Some out"
  shows "properties out = properties img"
  using assms
  by (auto simp: maskModisLst_def Image_addBands_def Image_updateMask_def Let_def
      split: bind_splits if_splits list.splits prod.splits)

lemma select_properties:
  assumes "Image_select img n = Some out"
  shows "properties out = properties img"
  using assms by (auto simp: Image_select_def)

lemma those_map_Some:
  assumes "those (map f xs) = Some ys" and "y \<in> set ys"
  shows "\<exists>x \<in> set xs. f x = Some y"
  using assms
proof (induction xs arbitrary: ys)
  case Nil
  then show ?case by simp
next
  case (Cons x xs)
  then show ?case by (auto split: option.splits)
qed

lemma in_date_range_properties:
  "properties a = properties b \<Longrightarrow> in_date_range s e a = in_date_range s e b"
  by (simp add: in_date_range_def)

lemma modisLST_v2_dated:
  assumes "modisLST_v2 in_roi collection = Some coll" and "img \<in> set coll"
  shows "in_date_range (Date_fromYMD 2018 1 1) (Date_fromYMD 2022 1 1) img"
proof -
  let ?dated = "filterDate (filter in_roi collection)
                  (Date_fromYMD year 1 1) (Date_fromYMD (year + n_year) 1 1)"
  have run: "those (map scaleModisLst ?dated) \<bind> (\<lambda>scaled.
               those (map maskModisLst scaled) \<bind> (\<lambda>masked.
                 those (map (\<lambda>img. Image_select img ''LST_Day_1km'') masked))) = Some coll"
    using assms(1) unfolding modisLST_v2_def Let_def .
  then obtain scaled where
    scaled: "those (map scaleModisLst ?dated) = Some scaled"
    and rest: "those (map maskModisLst scaled) \<bind> (\<lambda>masked.
                 those (map (\<lambda>img. Image_select img ''LST_Day_1km'') masked)) = Some coll"
    by (cases "those (map scaleModisLst ?dated)") simp_all
  then obtain masked where
    masked: "those (map maskModisLst scaled) = Some masked"
    and coll: "those (map (\<lambda>img. Image_select img ''LST_Day_1km'') masked) = Some coll"
    by (cases "those (map maskModisLst scaled)") simp_all
  from those_map_Some [OF coll assms(2)] obtain m where
    m: "m \<in> set masked" "Image_select m ''LST_Day_1km'' = Some img" by blast
  from those_map_Some [OF masked m(1)] obtain s where
    s: "s \<in> set scaled" "maskModisLst s = Some m" by blast
  from those_map_Some [OF scaled s(1)] obtain d where
    d: "d \<in> set ?dated" "scaleModisLst d = Some s" by blast
  have props: "properties img = properties d"
    using select_properties [OF m(2)] mask_properties [OF s(2)] scale_properties [OF d(2)]
    by simp
  have "in_date_range (Date_fromYMD 2018 1 1) (Date_fromYMD 2022 1 1) d"
    using d(1) by (simp add: filterDate_def year_def n_year_def)
  then show ?thesis
    unfolding in_date_range_properties [OF props] .
qed

lemma millis_2018_04: "Date_millis (month_start 3) = 1522540800000"
  by (simp add: month_start_explicit Date_millis_def Date_fromYMD_def days_before_year_def
      days_before_month_def days_in_month_def leap_days_def leap_year_def upto_rec1)

lemma millis_2018_01: "Date_millis (Date_fromYMD 2018 1 1) = 1514764800000"
  by (simp add: Date_millis_def Date_fromYMD_def days_before_year_def
      days_before_month_def leap_days_def)

lemma millis_2022_01: "Date_millis (Date_fromYMD 2022 1 1) = 1640995200000"
  by (simp add: Date_millis_def Date_fromYMD_def days_before_year_def
      days_before_month_def leap_days_def)

lemma those_map_bind:
  "those (map f xs) \<bind> (\<lambda>ys. those (map g ys)) = those (map (\<lambda>x. f x \<bind> g) xs)"
proof (induction xs)
  case Nil
  then show ?case by simp
next
  case (Cons x xs)
  show ?case
  proof (cases "f x")
    case None
    then show ?thesis by simp
  next
    case (Some y)
    show ?thesis
    proof (cases "those (map f xs)")
      case None
      with Cons Some show ?thesis by (simp split: option.splits)
    next
      case (Some ys)
      with Cons \<open>f x = Some y\<close> show ?thesis
        by (cases "g y") (simp_all add: option.map_comp comp_def split: option.splits)
    qed
  qed
qed

lemma those_map_list_all2:
  assumes "\<forall>x \<in> set xs. \<exists>y. f x = Some y \<and> R x y"
  shows "\<exists>ys. those (map f xs) = Some ys \<and> list_all2 R xs ys"
  using assms
proof (induction xs)
  case Nil
  then show ?case by simp
next
  case (Cons x xs)
  then obtain y ys where "f x = Some y" "R x y" "those (map f xs) = Some ys" "list_all2 R xs ys"
    by auto
  then show ?case by simp
qed

lemma scale_result:
  assumes "band img ''LST_Day_1km'' = Some r"
  shows "\<exists>out r'. scaleModisLst img = Some out
           \<and> band_names out = band_names img
           \<and> properties out = properties img
           \<and> band out ''LST_Day_1km'' = Some r'
           \<and> (\<forall>p. pixel r' p = map_option (\<lambda>x. x * 0.02 - 273.15) (pixel r p))
           \<and> (\<forall>n. n \<noteq> ''LST_Day_1km'' \<longrightarrow> band out n = band img n)"
proof -
  let ?s = "RealBand (\<lambda>p. map_option (\<lambda>x. x * 0.02 - 273.15) (pixel r p))"
  let ?g = "\<lambda>n s. if n = ''LST_Day_1km'' then ?s else s"
  let ?out = "img\<lparr>bands := map (\<lambda>(n, s). (n, ?g n s)) (bands img)\<rparr>"
  have run: "scaleModisLst img = Some ?out"
    using assms by (rule scale_explicit)
  have names: "band_names ?out = band_names img"
    by (auto simp: band_names_def split: prod.splits)
  have props: "properties ?out = properties img" by simp
  have lst: "band ?out ''LST_Day_1km'' = Some ?s"
    using assms by (simp add: band_def band_map_bands)
  have px: "\<forall>p. pixel ?s p = map_option (\<lambda>x. x * 0.02 - 273.15) (pixel r p)"
    by simp
  have other: "band ?out n = band img n" if "n \<noteq> ''LST_Day_1km''" for n
    unfolding band_def using that
    by (simp add: band_map_bands [where g = ?g] option.map_ident cong: option.map_cong)
  from run names props lst px other show ?thesis by blast
qed

lemma chain_result:
  assumes lst: "band img ''LST_Day_1km'' = Some r"
    and qc: "band img ''QC_Day'' = Some (IntBand qc)"
    and fresh: "''qaMask'' \<notin> set (band_names img)"
  shows "\<exists>out. (scaleModisLst img \<bind> maskModisLst \<bind> (\<lambda>m. Image_select m ''LST_Day_1km''))
                 = Some out
           \<and> scaled_masked_LST img out"
proof -
  from scale_result [OF lst] obtain s r1 where
    s: "scaleModisLst img = Some s" "band_names s = band_names img"
      "properties s = properties img" "band s ''LST_Day_1km'' = Some r1"
      "\<forall>p. pixel r1 p = map_option (\<lambda>x. x * 0.02 - 273.15) (pixel r p)"
      "\<forall>n. n \<noteq> ''LST_Day_1km'' \<longrightarrow> band s n = band img n"
    by blast
  have qc': "band s ''QC_Day'' = Some (IntBand qc)"
    using s(6) qc by simp
  have fresh': "''qaMask'' \<notin> set (band_names s)"
    using fresh s(2) by simp
  from mask_result [OF qc' fresh'] obtain m where
    m: "maskModisLst s = Some m" "properties m = properties s"
      "\<forall>n r. band s n = Some r \<longrightarrow>
          (\<exists>r'. band m n = Some r' \<and>
             (\<forall>p. pixel r' p =
                (if \<exists>q. qc p = Some q \<and> qa_flags_ok q then pixel r p else None)))"
    by blast
  from m(3) s(4) obtain r2 where
    r2: "band m ''LST_Day_1km'' = Some r2"
      "\<forall>p. pixel r2 p = (if \<exists>q. qc p = Some q \<and> qa_flags_ok q then pixel r1 p else None)"
    by blast
  let ?out = "m\<lparr>bands := [(''LST_Day_1km'', r2)]\<rparr>"
  have sel: "Image_select m ''LST_Day_1km'' = Some ?out"
    using r2(1) by (rule Image_select_Some)
  have run: "(scaleModisLst img \<bind> maskModisLst \<bind> (\<lambda>m. Image_select m ''LST_Day_1km''))
                 = Some ?out"
    by (simp add: s(1) m(1) sel)
  have px: "\<forall>p. pixel r2 p =
                 (if \<exists>q. qc p = Some q \<and> qa_flags_ok q
                  then map_option (\<lambda>x. x * 0.02 - 273.15) (pixel r p) else None)"
    by (simp only: r2(2) s(5)) (rule allI, rule refl)
  have "scaled_masked_LST img ?out"
    unfolding scaled_masked_LST_def
    using lst qc px m(2) s(3) by auto
  with run show ?thesis by blast
qed

lemma modisLST_v2_fused:
  "modisLST_v2 in_roi collection =
     those (map (\<lambda>img. scaleModisLst img \<bind> maskModisLst
                         \<bind> (\<lambda>m. Image_select m ''LST_Day_1km''))
              (filter (\<lambda>img. in_roi img \<and>
                         in_date_range (Date_fromYMD 2018 1 1) (Date_fromYMD 2022 1 1) img)
                 collection))"
proof -
  let ?sel = "\<lambda>m. Image_select m ''LST_Day_1km''"
  let ?dated = "filter (\<lambda>img. in_roi img \<and>
                         in_date_range (Date_fromYMD 2018 1 1) (Date_fromYMD 2022 1 1) img)
                 collection"
  have dated: "filterDate (filter in_roi collection)
                 (Date_fromYMD year 1 1) (Date_fromYMD (year + n_year) 1 1) = ?dated"
    by (simp add: filterDate_def year_def n_year_def conj_commute)
  have "modisLST_v2 in_roi collection =
          those (map scaleModisLst ?dated) \<bind> (\<lambda>scaled.
            those (map maskModisLst scaled) \<bind> (\<lambda>masked. those (map ?sel masked)))"
    unfolding modisLST_v2_def Let_def dated ..
  also have "\<dots> = those (map scaleModisLst ?dated) \<bind> (\<lambda>scaled.
            those (map (\<lambda>s. maskModisLst s \<bind> ?sel) scaled))"
    by (simp only: those_map_bind)
  also have "\<dots> = those (map (\<lambda>img. scaleModisLst img \<bind> (\<lambda>s. maskModisLst s \<bind> ?sel))
                         ?dated)"
    by (simp only: those_map_bind)
  also have "\<dots> = those (map (\<lambda>img. scaleModisLst img \<bind> maskModisLst \<bind> ?sel) ?dated)"
    by simp
  finally show ?thesis .
qed

lemma millis_2018_02: "Date_millis (month_start 1) = 1517443200000"
  by (simp add: month_start_explicit Date_millis_def Date_fromYMD_def days_before_year_def
      days_before_month_def days_in_month_def leap_days_def leap_year_def upto_rec1)

lemma millis_2018_05: "Date_millis (month_start 4) = 1525132800000"
  by (simp add: month_start_explicit Date_millis_def Date_fromYMD_def days_before_year_def
      days_before_month_def days_in_month_def leap_days_def leap_year_def upto_rec1)

lemma example_wf:
  "\<forall>img \<in> set example_collection.
      example_in_roi img
        \<and> in_date_range (Date_fromYMD 2018 1 1) (Date_fromYMD 2022 1 1) img \<longrightarrow>
        (\<exists>r qc. band img ''LST_Day_1km'' = Some r \<and> band img ''QC_Day'' = Some (IntBand qc))
        \<and> ''qaMask'' \<notin> set (band_names img)"
  by (simp add: example_collection_def example_image_old_def example_image_def
      example_image_far_def example_image_b_def example_image_d_def example_image_c_def
      example_in_roi_def in_date_range_def millis_2018_01 millis_2022_01 band_def band_names_def)

lemma example_dated:
  "filter (\<lambda>img. example_in_roi img
             \<and> in_date_range (Date_fromYMD 2018 1 1) (Date_fromYMD 2022 1 1) img)
      example_collection
     = [example_image, example_image_b, example_image_d, example_image_c]"
  by (simp add: example_collection_def example_image_old_def example_image_def
      example_image_far_def example_image_b_def example_image_d_def example_image_c_def
      example_in_roi_def in_date_range_def millis_2018_01 millis_2022_01)

lemma qa_flags_ok_examples: "qa_flags_ok 0" "\<not> qa_flags_ok 5"
  by (simp_all add: qa_flags_ok_def bit_field_def)

lemma example_a_out:
  assumes "scaled_masked_LST example_image a"
  shows "properties a ''system:time_start'' = Some 1522540800000
       \<and> (\<exists>r. bands a = [(''LST_Day_1km'', r)] \<and> pixel r 0 = Some 26.85 \<and> pixel r 1 = None)"
proof -
  from assms obtain r qc r' where
    "band example_image ''LST_Day_1km'' = Some r"
    "band example_image ''QC_Day'' = Some (IntBand qc)"
    and out: "bands a = [(''LST_Day_1km'', r')]" "properties a = properties example_image"
    and px: "\<forall>p. pixel r' p =
                 (if \<exists>q. qc p = Some q \<and> qa_flags_ok q
                  then map_option (\<lambda>x. x * 0.02 - 273.15) (pixel r p) else None)"
    unfolding scaled_masked_LST_def by blast
  then have r: "r = IntBand (\<lambda>p. Some 15000)"
    and qc: "qc = (\<lambda>p. if p = 0 then Some 0 else Some 5)"
    by (simp_all add: example_image_def band_def)
  have "pixel r' 0 = Some 26.85" "pixel r' 1 = None"
    using px qa_flags_ok_examples by (simp_all add: r qc)
  moreover have "properties a ''system:time_start'' = Some 1522540800000"
    by (simp add: out(2) example_image_def)
  ultimately show ?thesis using out(1) by blast
qed

lemma example_b_out:
  assumes "scaled_masked_LST example_image_b a"
  shows "properties a ''system:time_start'' = Some 1523232000000
       \<and> (\<exists>r. bands a = [(''LST_Day_1km'', r)] \<and> pixel r 0 = Some 30.85 \<and> pixel r 1 = Some 30.85)"
proof -
  from assms obtain r qc r' where
    "band example_image_b ''LST_Day_1km'' = Some r"
    "band example_image_b ''QC_Day'' = Some (IntBand qc)"
    and out: "bands a = [(''LST_Day_1km'', r')]" "properties a = properties example_image_b"
    and px: "\<forall>p. pixel r' p =
                 (if \<exists>q. qc p = Some q \<and> qa_flags_ok q
                  then map_option (\<lambda>x. x * 0.02 - 273.15) (pixel r p) else None)"
    unfolding scaled_masked_LST_def by blast
  then have r: "r = IntBand (\<lambda>p. Some 15200)"
    and qc: "qc = (\<lambda>p. Some 0)"
    by (simp_all add: example_image_b_def band_def)
  have "pixel r' 0 = Some 30.85" "pixel r' 1 = Some 30.85"
    using px qa_flags_ok_examples by (simp_all add: r qc)
  moreover have "properties a ''system:time_start'' = Some 1523232000000"
    by (simp add: out(2) example_image_b_def)
  ultimately show ?thesis using out(1) by blast
qed

lemma example_d_out:
  assumes "scaled_masked_LST example_image_d a"
  shows "properties a ''system:time_start'' = Some 1523923200000
       \<and> (\<exists>r. bands a = [(''LST_Day_1km'', r)] \<and> pixel r 0 = Some 28.85 \<and> pixel r 1 = None)"
proof -
  from assms obtain r qc r' where
    "band example_image_d ''LST_Day_1km'' = Some r"
    "band example_image_d ''QC_Day'' = Some (IntBand qc)"
    and out: "bands a = [(''LST_Day_1km'', r')]" "properties a = properties example_image_d"
    and px: "\<forall>p. pixel r' p =
                 (if \<exists>q. qc p = Some q \<and> qa_flags_ok q
                  then map_option (\<lambda>x. x * 0.02 - 273.15) (pixel r p) else None)"
    unfolding scaled_masked_LST_def by blast
  then have r: "r = IntBand (\<lambda>p. Some 15100)"
    and qc: "qc = (\<lambda>p. if p = 0 then Some 0 else Some 5)"
    by (simp_all add: example_image_d_def band_def)
  have "pixel r' 0 = Some 28.85" "pixel r' 1 = None"
    using px qa_flags_ok_examples by (simp_all add: r qc)
  moreover have "properties a ''system:time_start'' = Some 1523923200000"
    by (simp add: out(2) example_image_d_def)
  ultimately show ?thesis using out(1) by blast
qed

lemma example_c_out:
  assumes "scaled_masked_LST example_image_c a"
  shows "properties a ''system:time_start'' = Some 1525132800000"
  using assms by (simp add: scaled_masked_LST_def example_image_c_def)

lemma median_april:
  assumes a: "bands a = [(''LST_Day_1km'', ra)]" "pixel ra 0 = Some 26.85" "pixel ra 1 = None"
    and b: "bands b = [(''LST_Day_1km'', rb)]" "pixel rb 0 = Some 30.85" "pixel rb 1 = Some 30.85"
    and d: "bands d = [(''LST_Day_1km'', rd)]" "pixel rd 0 = Some 28.85" "pixel rd 1 = None"
  shows "\<exists>r. band (example_median [a, b, d]) ''LST_Day_1km'' = Some r
           \<and> pixel r 0 = Some 28.85 \<and> pixel r 1 = Some 30.85"
  using assms
  by (simp add: example_median_def band_def band_names_def List.map_filter_simps median_of_def)

text \<open>
  C5. The version-2 request builds exactly \<open>n_year * 12 = 48\<close> monthly composites, from
  the scaled and masked \<^verbatim>\<open>LST_Day_1km\<close> collection: for a collection whose images in
  the region and in 2018-01-01 to 2022-01-01 have the bands \<^verbatim>\<open>LST_Day_1km\<close> and
  \<^verbatim>\<open>QC_Day\<close>, the first request succeeds and returns, for each of these images in
  order, its scaled and masked \<^verbatim>\<open>LST_Day_1km\<close> image, and the list of composites is
  built from that result. For every \<open>n\<close> from 0 to 47, image \<open>n\<close> is the reduction by
  \<^verbatim>\<open>median\<close> of that collection restricted to the half-open interval from 2018-01-01
  advanced by \<open>n\<close> months (inclusive) to 2018-01-01 advanced by \<open>n + 1\<close> months
  (exclusive), and its \<^verbatim>\<open>system:time_start\<close> is the start of that month, the first day
  of a month. Each interval ends where the next starts and starts strictly before it
  ends, the first starts at 2018-01-01 and the last ends at 2022-01-01, so every instant
  of 2018-01-01 to 2022-01-01 lies in exactly one interval; and every image of the
  collection enters exactly one composite.
\<close>

theorem modisLST_month_composites:
  assumes wf: "\<forall>img \<in> set collection.
      in_roi img \<and> in_date_range (Date_fromYMD 2018 1 1) (Date_fromYMD 2022 1 1) img \<longrightarrow>
        (\<exists>r qc. band img ''LST_Day_1km'' = Some r \<and> band img ''QC_Day'' = Some (IntBand qc))
        \<and> ''qaMask'' \<notin> set (band_names img)"
  shows "\<exists>coll.
     modisLST_v2 in_roi collection = Some coll
   \<and> list_all2 scaled_masked_LST
         (filter (\<lambda>img. in_roi img \<and>
                    in_date_range (Date_fromYMD 2018 1 1) (Date_fromYMD 2022 1 1) img) collection)
         coll
   \<and> modisLST_month_v2 median in_roi collection = Some (modisLST_month median coll)
   \<and> length (modisLST_month median coll) = 48
   \<and> (\<forall>n<48.
         modisLST_month median coll ! n =
           Image_set (median (filterDate coll (month_start (int n)) (month_start (int n + 1))))
             ''system:time_start'' (Date_millis (month_start (int n)))
       \<and> properties (modisLST_month median coll ! n) ''system:time_start''
           = Some (Date_millis (month_start (int n)))
       \<and> month_start (int n) = Date_fromYMD (2018 + int n div 12) (int n mod 12 + 1) 1
       \<and> Date_millis (month_start (int n)) < Date_millis (month_start (int n + 1)))
   \<and> month_start 0 = Date_fromYMD 2018 1 1
   \<and> month_start 48 = Date_fromYMD 2022 1 1
   \<and> (\<forall>t. Date_millis (Date_fromYMD 2018 1 1) \<le> t \<and> t < Date_millis (Date_fromYMD 2022 1 1)
         \<longrightarrow> (\<exists>!n. n < 48 \<and> Date_millis (month_start (int n)) \<le> t
                        \<and> t < Date_millis (month_start (int n + 1))))
   \<and> (\<forall>img \<in> set coll.
         \<exists>!n. n < 48 \<and>
           img \<in> set (filterDate coll (month_start (int n)) (month_start (int n + 1))))"
proof -
  let ?chain = "\<lambda>img. scaleModisLst img \<bind> maskModisLst
                         \<bind> (\<lambda>m. Image_select m ''LST_Day_1km'')"
  let ?dated = "filter (\<lambda>img. in_roi img \<and>
                    in_date_range (Date_fromYMD 2018 1 1) (Date_fromYMD 2022 1 1) img) collection"
  have each: "\<forall>img \<in> set ?dated. \<exists>out. ?chain img = Some out \<and> scaled_masked_LST img out"
  proof
    fix img
    assume "img \<in> set ?dated"
    with wf obtain r qc where
      "band img ''LST_Day_1km'' = Some r" "band img ''QC_Day'' = Some (IntBand qc)"
      "''qaMask'' \<notin> set (band_names img)"
      by auto
    then show "\<exists>out. ?chain img = Some out \<and> scaled_masked_LST img out"
      by (rule chain_result)
  qed
  from those_map_list_all2 [OF each] obtain coll where
    chain: "those (map ?chain ?dated) = Some coll"
    and rel: "list_all2 scaled_masked_LST ?dated coll"
    by blast
  have run: "modisLST_v2 in_roi collection = Some coll"
    unfolding modisLST_v2_fused by (rule chain)
  have month: "modisLST_month_v2 median in_roi collection = Some (modisLST_month median coll)"
    by (simp add: modisLST_month_v2_def run)
  have len: "length (modisLST_month median coll) = 48"
    by (rule length_modisLST_month)
  have nth: "modisLST_month median coll ! n =
           Image_set (median (filterDate coll (month_start (int n)) (month_start (int n + 1))))
             ''system:time_start'' (Date_millis (month_start (int n)))" if "n < 48" for n
    using that by (rule nth_modisLST_month)
  have time: "properties (modisLST_month median coll ! n) ''system:time_start''
           = Some (Date_millis (month_start (int n)))" if "n < 48" for n
    by (simp add: nth [OF that] Image_set_def)
  have first: "month_start (int n) = Date_fromYMD (2018 + int n div 12) (int n mod 12 + 1) 1"
    for n by (rule month_start_explicit)
  have less: "Date_millis (month_start (int n)) < Date_millis (month_start (int n + 1))"
    for n by (rule millis_month_start_less)
  have part: "\<exists>!n. n < 48 \<and> Date_millis (month_start (int n)) \<le> t
                        \<and> t < Date_millis (month_start (int n + 1))"
    if "Date_millis (Date_fromYMD 2018 1 1) \<le> t" "t < Date_millis (Date_fromYMD 2022 1 1)"
    for t
    using month_partition [of t 48] that by (simp add: month_start_0 month_start_48)
  have cover: "\<exists>!n. n < 48 \<and>
        img \<in> set (filterDate coll (month_start (int n)) (month_start (int n + 1)))"
    if img: "img \<in> set coll" for img
  proof -
    from modisLST_v2_dated [OF run img] obtain t where
      t: "properties img ''system:time_start'' = Some t"
        "Date_millis (Date_fromYMD 2018 1 1) \<le> t" "t < Date_millis (Date_fromYMD 2022 1 1)"
      by (auto simp: in_date_range_def split: option.splits)
    have "img \<in> set (filterDate coll (month_start (int n)) (month_start (int n + 1)))
            \<longleftrightarrow> Date_millis (month_start (int n)) \<le> t
                \<and> t < Date_millis (month_start (int n + 1))" for n
      using img t(1) by (simp add: filterDate_def in_date_range_def)
    with part [OF t(2,3)] show ?thesis by simp
  qed
  from run rel month len nth time first less month_start_0 month_start_48 part cover
  show ?thesis by blast
qed

theorem modisLST_month_composites_witness:
  "filter (\<lambda>img. example_in_roi img
             \<and> in_date_range (Date_fromYMD 2018 1 1) (Date_fromYMD 2022 1 1) img)
      example_collection
     = [example_image, example_image_b, example_image_d, example_image_c]
   \<and> map band_names [example_image, example_image_b, example_image_d, example_image_c]
       = [[''LST_Day_1km'', ''QC_Day''], [''LST_Day_1km'', ''QC_Day''],
          [''LST_Day_1km'', ''QC_Day''], [''LST_Day_1km'', ''QC_Day'']]
   \<and> band example_image ''QC_Day'' = Some (IntBand (\<lambda>p. if p = 0 then Some 0 else Some 5))
   \<and> band example_image_b ''QC_Day'' = Some (IntBand (\<lambda>p. Some 0))
   \<and> band example_image_d ''QC_Day'' = Some (IntBand (\<lambda>p. if p = 0 then Some 0 else Some 5))
   \<and> band example_image_c ''QC_Day'' = Some (IntBand (\<lambda>p. Some 0))
   \<and> (\<exists>coll comps.
         modisLST_v2 example_in_roi example_collection = Some coll
       \<and> length coll = 4
       \<and> modisLST_month_v2 example_median example_in_roi example_collection = Some comps
       \<and> length comps = 48
       \<and> properties (comps ! 3) ''system:time_start'' = Some 1522540800000
       \<and> (\<exists>r. band (comps ! 3) ''LST_Day_1km'' = Some r
              \<and> pixel r 0 = Some 28.85 \<and> pixel r 1 = Some 30.85)
       \<and> properties (comps ! 0) ''system:time_start'' = Some 1514764800000
       \<and> band (comps ! 0) ''LST_Day_1km'' = None
       \<and> (\<forall>img \<in> set coll.
             \<exists>!n. n < 48 \<and>
               img \<in> set (filterDate coll (month_start (int n)) (month_start (int n + 1)))))"
proof -
  note inst = modisLST_month_composites
    [of example_collection example_in_roi example_median, OF example_wf, unfolded example_dated]
  then obtain coll where
    run: "modisLST_v2 example_in_roi example_collection = Some coll"
    and rel: "list_all2 scaled_masked_LST
                [example_image, example_image_b, example_image_d, example_image_c] coll"
    and month: "modisLST_month_v2 example_median example_in_roi example_collection
                  = Some (modisLST_month example_median coll)"
    and len: "length (modisLST_month example_median coll) = 48"
    and each: "\<forall>n<48.
         modisLST_month example_median coll ! n =
           Image_set (example_median
               (filterDate coll (month_start (int n)) (month_start (int n + 1))))
             ''system:time_start'' (Date_millis (month_start (int n)))
       \<and> properties (modisLST_month example_median coll ! n) ''system:time_start''
           = Some (Date_millis (month_start (int n)))
       \<and> month_start (int n) = Date_fromYMD (2018 + int n div 12) (int n mod 12 + 1) 1
       \<and> Date_millis (month_start (int n)) < Date_millis (month_start (int n + 1))"
    and cover: "\<forall>img \<in> set coll.
         \<exists>!n. n < 48 \<and>
           img \<in> set (filterDate coll (month_start (int n)) (month_start (int n + 1)))"
    by (elim exE conjE)
  have nth: "modisLST_month example_median coll ! n =
           Image_set (example_median
               (filterDate coll (month_start (int n)) (month_start (int n + 1))))
             ''system:time_start'' (Date_millis (month_start (int n)))" if "n < 48" for n
    using each that by simp
  from rel obtain a b d c where
    coll: "coll = [a, b, d, c]"
    and a: "scaled_masked_LST example_image a"
    and b: "scaled_masked_LST example_image_b b"
    and d: "scaled_masked_LST example_image_d d"
    and c: "scaled_masked_LST example_image_c c"
    by (auto simp: list_all2_Cons1)
  from example_a_out [OF a] obtain ra where
    ta: "properties a ''system:time_start'' = Some 1522540800000"
    and pa: "bands a = [(''LST_Day_1km'', ra)]" "pixel ra 0 = Some 26.85" "pixel ra 1 = None"
    by blast
  from example_b_out [OF b] obtain rb where
    tb: "properties b ''system:time_start'' = Some 1523232000000"
    and pb: "bands b = [(''LST_Day_1km'', rb)]" "pixel rb 0 = Some 30.85" "pixel rb 1 = Some 30.85"
    by blast
  from example_d_out [OF d] obtain rd where
    td: "properties d ''system:time_start'' = Some 1523923200000"
    and pd: "bands d = [(''LST_Day_1km'', rd)]" "pixel rd 0 = Some 28.85" "pixel rd 1 = None"
    by blast
  note tc = example_c_out [OF c]
  have april: "filterDate coll (month_start 3) (month_start 4) = [a, b, d]"
    by (simp add: coll filterDate_def in_date_range_def ta tb td tc millis_2018_04 millis_2018_05)
  have january: "filterDate coll (Date_fromYMD 2018 1 1) (month_start 1) = []"
    by (simp add: coll filterDate_def in_date_range_def ta tb td tc
        millis_2018_01 millis_2018_02)
  have c3: "modisLST_month example_median coll ! 3 =
              Image_set (example_median [a, b, d]) ''system:time_start'' 1522540800000"
    using nth [of 3] by (simp add: april millis_2018_04)
  have c0: "modisLST_month example_median coll ! 0 =
              Image_set (example_median []) ''system:time_start'' 1514764800000"
    using nth [of 0] by (simp add: january month_start_0 millis_2018_01)
  from median_april [OF pa pb pd] obtain r where
    r: "band (example_median [a, b, d]) ''LST_Day_1km'' = Some r"
      "pixel r 0 = Some 28.85" "pixel r 1 = Some 30.85"
    by blast
  have b3: "band (modisLST_month example_median coll ! 3) ''LST_Day_1km'' = Some r"
    using r(1) by (simp add: c3 Image_set_def band_def)
  have t3: "properties (modisLST_month example_median coll ! 3) ''system:time_start''
              = Some 1522540800000"
    by (simp add: c3 Image_set_def)
  have b0: "band (modisLST_month example_median coll ! 0) ''LST_Day_1km'' = None"
    by (simp add: c0 Image_set_def band_def example_median_def)
  have t0: "properties (modisLST_month example_median coll ! 0) ''system:time_start''
              = Some 1514764800000"
    by (simp add: c0 Image_set_def)
  have l: "length coll = 4" by (simp add: coll)
  have px: "\<exists>r. band (modisLST_month example_median coll ! 3) ''LST_Day_1km'' = Some r
              \<and> pixel r 0 = Some 28.85 \<and> pixel r 1 = Some 30.85"
    using b3 r(2,3) by blast
  have "\<exists>coll comps.
         modisLST_v2 example_in_roi example_collection = Some coll
       \<and> length coll = 4
       \<and> modisLST_month_v2 example_median example_in_roi example_collection = Some comps
       \<and> length comps = 48
       \<and> properties (comps ! 3) ''system:time_start'' = Some 1522540800000
       \<and> (\<exists>r. band (comps ! 3) ''LST_Day_1km'' = Some r
              \<and> pixel r 0 = Some 28.85 \<and> pixel r 1 = Some 30.85)
       \<and> properties (comps ! 0) ''system:time_start'' = Some 1514764800000
       \<and> band (comps ! 0) ''LST_Day_1km'' = None
       \<and> (\<forall>img \<in> set coll.
             \<exists>!n. n < 48 \<and>
               img \<in> set (filterDate coll (month_start (int n)) (month_start (int n + 1))))"
    by (rule exI [of _ coll], rule exI [of _ "modisLST_month example_median coll"])
      (intro conjI run l month len t3 px t0 b0 cover)
  moreover have "map band_names [example_image, example_image_b, example_image_d, example_image_c]
       = [[''LST_Day_1km'', ''QC_Day''], [''LST_Day_1km'', ''QC_Day''],
          [''LST_Day_1km'', ''QC_Day''], [''LST_Day_1km'', ''QC_Day'']]"
    by (simp add: band_names_def example_image_def example_image_b_def example_image_d_def
        example_image_c_def)
  moreover have "band example_image ''QC_Day''
      = Some (IntBand (\<lambda>p. if p = 0 then Some 0 else Some 5))"
    by (simp add: band_def example_image_def)
  moreover have "band example_image_b ''QC_Day'' = Some (IntBand (\<lambda>p. Some 0))"
    by (simp add: band_def example_image_b_def)
  moreover have "band example_image_d ''QC_Day''
      = Some (IntBand (\<lambda>p. if p = 0 then Some 0 else Some 5))"
    by (simp add: band_def example_image_d_def)
  moreover have "band example_image_c ''QC_Day'' = Some (IntBand (\<lambda>p. Some 0))"
    by (simp add: band_def example_image_c_def)
  ultimately show ?thesis
    using example_dated by (intro conjI)
qed

section \<open>Properties of the export request\<close>

text \<open>
  C6 (amended). The script issues one export request. It asks for a raster file in
  GeoTIFF format and supplies the destination folder \<^verbatim>\<open>GEO874_2023FA\<close>, the filename
  prefix \<^verbatim>\<open>mod11a2_detroit_monthly_median\<close>, the region (the first feature of the region
  of interest, buffered by 10000 m, then its bounds), the pixel scale 1000 and the
  coordinate reference system \<^verbatim>\<open>EPSG:4326\<close>. Besides these it supplies the image to
  export and a task description, and nothing else; no parameter is given twice.
\<close>

theorem export_request_parameters:
  "length (export_requests i) = 1
   \<and> (\<forall>r \<in> set (export_requests i).
         map_of r ''fileFormat'' = Some (Str ''GeoTIFF'')
       \<and> map_of r ''folder'' = Some (Str ''GEO874_2023FA'')
       \<and> map_of r ''fileNamePrefix'' = Some (Str ''mod11a2_detroit_monthly_median'')
       \<and> map_of r ''region'' = Some (Region
             (Bounds (Buffer (First (FeatureCollection ''users/QiuYuean/City_of_Detroit_Boundary''))
                        10000)))
       \<and> map_of r ''scale'' = Some (Num 1000)
       \<and> map_of r ''crs'' = Some (Str ''EPSG:4326'')
       \<and> map_of r ''image'' = Some (Img i)
       \<and> map_of r ''description'' = Some (Str ''MOD11A2_detroit_monthly_median'')
       \<and> distinct (map fst r)
       \<and> set (map fst r) = {''fileFormat'', ''folder'', ''fileNamePrefix'', ''region'', ''scale'',
                              ''crs'', ''image'', ''description''})"
  by (auto simp: export_requests_def folder_def crs_def roi_buffer_def roi_detroit_def roi_def)

theorem export_request_parameters_witness:
  "hd (export_requests ()) \<in> set (export_requests ())
   \<and> map_of (hd (export_requests ())) ''scale'' = Some (Num 1000)
   \<and> map_of (hd (export_requests ())) ''fileFormat'' = Some (Str ''GeoTIFF'')"
proof -
  have "hd (export_requests ()) \<in> set (export_requests ())"
    by (simp add: export_requests_def)
  with export_request_parameters [of "()"] show ?thesis by blast
qed

text \<open>
  C6 as stated fails: apart from the image and the file format, the parameters of the
  request are not exactly the folder, the filename prefix, the region, the scale and the
  coordinate reference system, since the request also carries a \<^verbatim>\<open>description\<close>.
\<close>

theorem export_request_extra_parameter:
  "set (map fst (hd (export_requests ()))) - {''image'', ''fileFormat''}
     \<noteq> {''folder'', ''fileNamePrefix'', ''region'', ''scale'', ''crs''}"
proof
  assume eq: "set (map fst (hd (export_requests ()))) - {''image'', ''fileFormat''}
     = {''folder'', ''fileNamePrefix'', ''region'', ''scale'', ''crs''}"
  have "''description'' \<in> set (map fst (hd (export_requests ()))) - {''image'', ''fileFormat''}"
    by (simp add: export_requests_def)
  with eq have "''description'' \<in> {''folder'', ''fileNamePrefix'', ''region'', ''scale'', ''crs''}"
    by simp
  then show False by simp
qed


end
